theory Spec2Isabelle
  imports Complex_Main "HOL-Library.Sublist" "HOL-Library.Stream"
begin

section \<open>Python primitives used by the stat synthesis engine\<close>

subsection \<open>Exceptions\<close>

text \<open>
  The exceptions the engine's own statements can raise: a subscript on a dictionary
  (\<^verbatim>\<open>d[k]\<close>), \<^verbatim>\<open>random.choice\<close> on an empty sequence, \<^verbatim>\<open>random.randint\<close> on an empty
  range, and a read of a local variable that no executed branch has assigned.
\<close>

datatype error = KeyError | IndexError | ValueError | UnboundLocalError

subsection \<open>Text\<close>

text \<open>
  A prompt is a sequence of code points below 256 (Latin-1 text), one \<open>char\<close> each.
  \<^verbatim>\<open>str.lower\<close> adds 32 to the upper-case letters: the codes 65 to 90, and 192 to 222
  except 215 (the multiplication sign). \<^verbatim>\<open>str.split()\<close> cuts at runs of whitespace
  (the codes 9 to 13, 28 to 32, 133 and 160) and yields no empty token. \<^verbatim>\<open>kw in s\<close>
  is the substring test. \<^verbatim>\<open>str.title\<close> is applied to the keys of the element table
  only, which are ASCII letters, and is modelled on ASCII letters.
\<close>

definition is_upper :: "char \<Rightarrow> bool" where
  "is_upper c = (65 \<le> (of_char c :: nat) \<and> (of_char c :: nat) \<le> 90)"

definition is_lower :: "char \<Rightarrow> bool" where
  "is_lower c = (97 \<le> (of_char c :: nat) \<and> (of_char c :: nat) \<le> 122)"

definition lower_char :: "char \<Rightarrow> char" where
  "lower_char c =
     (if is_upper c
         \<or> (192 \<le> (of_char c :: nat) \<and> (of_char c :: nat) \<le> 222
            \<and> (of_char c :: nat) \<noteq> 215)
      then char_of ((of_char c :: nat) + 32) else c)"

definition upper_char :: "char \<Rightarrow> char" where
  "upper_char c = (if is_lower c then char_of ((of_char c :: nat) - 32) else c)"

definition str_lower :: "string \<Rightarrow> string" where
  "str_lower s = map lower_char s"

definition is_space :: "char \<Rightarrow> bool" where
  "is_space c = ((9 \<le> (of_char c :: nat) \<and> (of_char c :: nat) \<le> 13)
                 \<or> (28 \<le> (of_char c :: nat) \<and> (of_char c :: nat) \<le> 32)
                 \<or> (of_char c :: nat) = 133 \<or> (of_char c :: nat) = 160)"

text \<open>\<^verbatim>\<open>split_from cur s\<close>: the tokens of \<^verbatim>\<open>s\<close>, where \<^verbatim>\<open>cur\<close> is the token being read.\<close>

fun split_from :: "string \<Rightarrow> string \<Rightarrow> string list" where
  "split_from cur [] = (if cur = [] then [] else [cur])"
| "split_from cur (c # cs) =
     (if is_space c
      then (if cur = [] then split_from [] cs else cur # split_from [] cs)
      else split_from (cur @ [c]) cs)"

definition str_split :: "string \<Rightarrow> string list" where
  "str_split s = split_from [] s"

fun str_contains :: "string \<Rightarrow> string \<Rightarrow> bool" where
  "str_contains kw [] = (kw = [])"
| "str_contains kw (c # cs) = (prefix kw (c # cs) \<or> str_contains kw cs)"

text \<open>
  \<^verbatim>\<open>str.title\<close>: a cased character is upper-cased when the character before it is not
  cased, and lower-cased when it is.
\<close>

fun title_from :: "bool \<Rightarrow> string \<Rightarrow> string" where
  "title_from previous_is_cased [] = []"
| "title_from previous_is_cased (c # cs) =
     (if is_upper c \<or> is_lower c
      then (if previous_is_cased then lower_char c else upper_char c) # title_from True cs
      else c # title_from False cs)"

definition str_title :: "string \<Rightarrow> string" where
  "str_title s = title_from False s"

text \<open>\<^verbatim>\<open>str(n)\<close> for an integer, as the f-string of the heal action formats it.\<close>

fun digits :: "nat \<Rightarrow> string" where
  "digits n = (if n < 10 then [char_of (48 + n)] else digits (n div 10) @ [char_of (48 + n mod 10)])"

declare digits.simps [simp del]

definition str_of_int :: "int \<Rightarrow> string" where
  "str_of_int i = (if i < 0 then CHR ''-'' # digits (nat (- i)) else digits (nat i))"

subsection \<open>Dictionaries\<close>

text \<open>
  A dictionary literal is an association list in the order it is written, which is the
  order Python iterates it in. \<^verbatim>\<open>d.get(k, dflt)\<close> is \<^verbatim>\<open>dict_get d k dflt\<close>.
\<close>

definition dict_get :: "('k \<times> 'v) list \<Rightarrow> 'k \<Rightarrow> 'v \<Rightarrow> 'v" where
  "dict_get d k dflt = (case map_of d k of None \<Rightarrow> dflt | Some v \<Rightarrow> v)"

text \<open>The subscript \<^verbatim>\<open>d[k]\<close> raises \<^verbatim>\<open>KeyError\<close> on a missing key.\<close>

definition dict_lookup :: "('k \<times> 'v) list \<Rightarrow> 'k \<Rightarrow> error + 'v" where
  "dict_lookup d k = (case map_of d k of None \<Rightarrow> Inl KeyError | Some v \<Rightarrow> Inr v)"

subsection \<open>Floating point\<close>

text \<open>
  A Python float is an IEEE 754 double. A finite double is the rational number it denotes;
  every operation computes the exact result and rounds it to 53 significant bits, ties to
  even. The engine's values stay far inside the normal range (a CPython string has fewer
  than \<open>2\<^sup>6\<^sup>3\<close> characters, which bounds the word count), so overflow and subnormal
  numbers are not modelled.
\<close>

type_synonym float = rat

text \<open>Rounding to the nearest integer, ties to even.\<close>

definition rne :: "rat \<Rightarrow> int" where
  "rne q = (let f = \<lfloor>q\<rfloor>; r = q - of_int f in
     if r < 1 / 2 then f else if 1 / 2 < r then f + 1 else if even f then f else f + 1)"

text \<open>The number of binary digits of a natural number.\<close>

fun nbits :: "nat \<Rightarrow> nat" where
  "nbits n = (if n = 0 then 0 else Suc (nbits (n div 2)))"

declare nbits.simps [simp del]

text \<open>The exponent \<open>e\<close> with \<open>2\<^sup>e \<le> x < 2\<^sup>e\<^sup>+\<^sup>1\<close>, for \<open>x > 0\<close>.\<close>

definition ilog2 :: "rat \<Rightarrow> int" where
  "ilog2 x = (if 1 \<le> x then int (nbits (nat \<lfloor>x\<rfloor>)) - 1
              else - int (nbits (nat (\<lceil>1 / x\<rceil> - 1))))"

definition rnd :: "rat \<Rightarrow> float" where
  "rnd x = (if x = 0 then 0 else
     let e = ilog2 \<bar>x\<bar> - 52 in of_int (rne (x / 2 powi e)) * 2 powi e)"

text \<open>
  A decimal literal of the source denotes the double nearest to it; \<open>float_lit p q\<close> is
  the literal whose decimal value is \<open>p / q\<close>, so that \<^verbatim>\<open>1.8\<close> is \<open>float_lit 18 10\<close>.
\<close>

definition float_lit :: "int \<Rightarrow> int \<Rightarrow> float" where
  "float_lit p q = rnd (of_int p / of_int q)"

text \<open>The conversion of an integer operand in mixed arithmetic.\<close>

definition float_of_int :: "int \<Rightarrow> float" where
  "float_of_int n = rnd (of_int n)"

definition fmul :: "float \<Rightarrow> float \<Rightarrow> float" where
  "fmul x y = rnd (x * y)"

definition fadd :: "float \<Rightarrow> float \<Rightarrow> float" where
  "fadd x y = rnd (x + y)"

text \<open>\<^verbatim>\<open>int(x)\<close> truncates towards zero.\<close>

definition py_int :: "float \<Rightarrow> int" where
  "py_int x = (if 0 \<le> x then \<lfloor>x\<rfloor> else \<lceil>x\<rceil>)"

subsection \<open>The random number generator\<close>

text \<open>
  The process-wide generator is modelled by the sequence of its outcomes: one natural
  number for each call of a primitive, which the primitive reduces onto its range of
  results. \<^verbatim>\<open>random.random()\<close> returns a multiple of \<open>2\<^sup>-\<^sup>5\<^sup>3\<close> in \<open>[0, 1)\<close>,
  \<^verbatim>\<open>random.randint(a, b)\<close> an integer of \<open>[a, b]\<close>, \<^verbatim>\<open>random.choice(xs)\<close> an element
  of \<^verbatim>\<open>xs\<close>. Each primitive returns its result and the rest of the sequence.
\<close>

type_synonym rng = "nat stream"

definition random_random :: "rng \<Rightarrow> float \<times> rng" where
  "random_random g = (of_nat (shd g mod 2 ^ 53) / 2 ^ 53, stl g)"

definition random_randint :: "int \<Rightarrow> int \<Rightarrow> rng \<Rightarrow> error + (int \<times> rng)" where
  "random_randint a b g =
     (if b < a then Inl ValueError
      else Inr (a + int (shd g mod nat (b - a + 1)), stl g))"

definition random_choice :: "'a list \<Rightarrow> rng \<Rightarrow> error + ('a \<times> rng)" where
  "random_choice xs g =
     (if xs = [] then Inl IndexError
      else Inr (xs ! (shd g mod length xs), stl g))"

section \<open>Data model\<close>

record characteristics =
  creature_type :: string
  combat_styles :: "string list"
  descriptors :: "string list"

record analysis =
  apparent_power_level :: float
  detected_element :: string
  complexity_score :: int
  creature_characteristics :: characteristics
  original_prompt :: string

record attack =
  attack_name :: string
  damage :: int
  description :: string

record card_metadata =
  name :: string
  hp :: int
  card_type :: string
  rarity :: string
  flavorText :: string
  attacks :: "attack list"

definition RARITIES :: "string list" where
  "RARITIES = [''Common'', ''Uncommon'', ''Rare'', ''Epic'', ''Legendary'']"

section \<open>Characteristic extractor\<close>

definition creature_types :: "(string \<times> string list) list" where
  "creature_types =
    [(''dragon'', [''dragon'', ''drake'', ''wyrm'']),
     (''wolf'', [''wolf'', ''dire wolf'', ''fenrir'']),
     (''bird'', [''eagle'', ''phoenix'', ''hawk'', ''raven'']),
     (''beast'', [''tiger'', ''lion'', ''bear'', ''panther'']),
     (''elemental'', [''elemental'', ''spirit'', ''wisp'']),
     (''demon'', [''demon'', ''devil'', ''fiend'']),
     (''angel'', [''angel'', ''seraph'', ''cherub'']),
     (''undead'', [''skeleton'', ''zombie'', ''lich'', ''ghost''])]"

text \<open>\<^verbatim>\<open>any(keyword in prompt_lower for keyword in keywords)\<close>\<close>

definition any_in :: "string list \<Rightarrow> string \<Rightarrow> bool" where
  "any_in keywords prompt_lower = list_ex (\<lambda>keyword. str_contains keyword prompt_lower) keywords"

text \<open>
  The loop over \<^verbatim>\<open>creature_types.items()\<close>: the first entry with a keyword in the
  prompt sets \<^verbatim>\<open>detected_type\<close> and leaves the loop.
\<close>

fun detect_type :: "(string \<times> string list) list \<Rightarrow> string \<Rightarrow> string \<Rightarrow> string" where
  "detect_type [] prompt_lower detected = detected"
| "detect_type ((ctype, keywords) # rest) prompt_lower detected =
     (if any_in keywords prompt_lower then ctype
      else detect_type rest prompt_lower detected)"

definition extract_creature_characteristics :: "string \<Rightarrow> characteristics" where
  "extract_creature_characteristics prompt =
    (let prompt_lower = str_lower prompt;
         detected_type = detect_type creature_types prompt_lower ''beast'';
         combat_styles =
           (if any_in [''claws'', ''talons'', ''sharp''] prompt_lower then [''slashing''] else [])
           @ (if any_in [''fire'', ''flame'', ''burning''] prompt_lower then [''fire''] else [])
           @ (if any_in [''magic'', ''spell'', ''enchanted''] prompt_lower then [''magic''] else [])
           @ (if any_in [''bite'', ''teeth'', ''fangs''] prompt_lower then [''biting''] else [])
     in \<lparr> creature_type = detected_type,
          combat_styles = (if combat_styles \<noteq> [] then combat_styles else [''physical'']),
          descriptors = filter (\<lambda>word. length word > 4) (str_split prompt_lower) \<rparr>)"

section \<open>Power and element classifier\<close>

definition size_indicators :: "(string \<times> float) list" where
  "size_indicators =
    [(''tiny'', float_lit 3 10), (''small'', float_lit 5 10),
     (''young'', float_lit 6 10), (''medium'', float_lit 7 10),
     (''large'', float_lit 12 10), (''huge'', float_lit 15 10),
     (''massive'', float_lit 18 10), (''giant'', float_lit 20 10),
     (''ancient'', float_lit 16 10), (''elder'', float_lit 14 10),
     (''baby'', float_lit 4 10), (''mighty'', float_lit 13 10)]"

definition element_keywords :: "(string \<times> string list) list" where
  "element_keywords =
    [(''fire'', [''fire'', ''flame'', ''lava'', ''magma'', ''ember'', ''phoenix'', ''dragon'']),
     (''water'', [''water'', ''ice'', ''frost'', ''ocean'', ''sea'', ''aquatic'', ''whale'']),
     (''earth'', [''rock'', ''stone'', ''earth'', ''mountain'', ''crystal'', ''gem'']),
     (''air'', [''wind'', ''storm'', ''cloud'', ''lightning'', ''thunder'', ''eagle'']),
     (''dark'', [''shadow'', ''dark'', ''void'', ''nightmare'', ''demon'', ''evil'']),
     (''light'', [''light'', ''holy'', ''angel'', ''divine'', ''celestial'', ''bright''])]"

text \<open>
  The loop over \<^verbatim>\<open>size_indicators.items()\<close>: the first indicator found in the prompt
  sets \<^verbatim>\<open>power_multiplier\<close> and leaves the loop.
\<close>

fun detect_power :: "(string \<times> float) list \<Rightarrow> string \<Rightarrow> float \<Rightarrow> float" where
  "detect_power [] prompt_lower power_multiplier = power_multiplier"
| "detect_power ((indicator, multiplier) # rest) prompt_lower power_multiplier =
     (if str_contains indicator prompt_lower then multiplier
      else detect_power rest prompt_lower power_multiplier)"

text \<open>The loop over \<^verbatim>\<open>element_keywords.items()\<close>, of the same shape.\<close>

fun detect_element :: "(string \<times> string list) list \<Rightarrow> string \<Rightarrow> string \<Rightarrow> string" where
  "detect_element [] prompt_lower detected = detected"
| "detect_element ((element, keywords) # rest) prompt_lower detected =
     (if any_in keywords prompt_lower then str_title element
      else detect_element rest prompt_lower detected)"

text \<open>
  The simulated wait of the source (\<^verbatim>\<open>asyncio.sleep\<close>) has no effect on the result and
  is left out; \<^verbatim>\<open>image_url\<close> is accepted and not read.
\<close>

definition simulate_vision_analysis :: "string \<Rightarrow> string \<Rightarrow> analysis" where
  "simulate_vision_analysis image_url prompt =
    (let prompt_lower = str_lower prompt;
         power_multiplier = detect_power size_indicators prompt_lower (float_lit 10 10);
         detected_element = detect_element element_keywords prompt_lower ''Fire'';
         complexity_score = int (length (str_split prompt))
           + (if any_in [''legendary'', ''ancient'', ''mythical''] prompt_lower then 2 else 0)
     in \<lparr> apparent_power_level = power_multiplier,
          detected_element = detected_element,
          complexity_score = complexity_score,
          creature_characteristics = extract_creature_characteristics prompt,
          original_prompt = prompt \<rparr>)"

section \<open>Stat synthesizer\<close>

subsection \<open>Name generator\<close>

definition element_prefixes :: "(string \<times> string list) list" where
  "element_prefixes =
    [(''Fire'', [''Flame'', ''Ember'', ''Blaze'', ''Inferno'', ''Cinder'']),
     (''Water'', [''Frost'', ''Ice'', ''Wave'', ''Tide'', ''Storm'']),
     (''Earth'', [''Stone'', ''Rock'', ''Crystal'', ''Granite'', ''Iron'']),
     (''Air'', [''Wind'', ''Storm'', ''Thunder'', ''Lightning'', ''Gale'']),
     (''Dark'', [''Shadow'', ''Void'', ''Night'', ''Dread'', ''Gloom'']),
     (''Light'', [''Dawn'', ''Radiant'', ''Celestial'', ''Divine'', ''Bright''])]"

definition type_suffixes :: "(string \<times> string list) list" where
  "type_suffixes =
    [(''dragon'', [''drake'', ''wyrm'', ''wing'', ''scale'', ''claw'']),
     (''wolf'', [''fang'', ''howl'', ''pack'', ''moon'', ''wild'']),
     (''bird'', [''wing'', ''talon'', ''soar'', ''sky'', ''flight'']),
     (''beast'', [''claw'', ''roar'', ''hunt'', ''prowl'', ''fierce'']),
     (''elemental'', [''spirit'', ''essence'', ''force'', ''energy'', ''core'']),
     (''demon'', [''spawn'', ''fiend'', ''terror'', ''doom'', ''bane'']),
     (''angel'', [''wing'', ''light'', ''grace'', ''holy'', ''divine'']),
     (''undead'', [''bone'', ''soul'', ''wraith'', ''specter'', ''shade''])]"

text \<open>
  The source reads \<^verbatim>\<open>descriptors\<close> into a local variable and never uses it; the
  binding is kept.
\<close>

definition generate_creature_name ::
    "characteristics \<Rightarrow> string \<Rightarrow> rng \<Rightarrow> error + (string \<times> rng)" where
  "generate_creature_name ch element g =
    (let ctype = creature_type ch;
         descs = descriptors ch
     in case random_choice (dict_get element_prefixes element [''Ancient'']) g of
          Inl e \<Rightarrow> Inl e
        | Inr (pre, g1) \<Rightarrow>
            (case random_choice (dict_get type_suffixes ctype [''beast'']) g1 of
               Inl e \<Rightarrow> Inl e
             | Inr (suf, g2) \<Rightarrow> Inr (pre @ suf, g2)))"

subsection \<open>Attack generator\<close>

text \<open>An attack template: name, base damage, description.\<close>

type_synonym template = "string \<times> int \<times> string"

definition attack_templates :: "(string \<times> (string \<times> template list) list) list" where
  "attack_templates =
    [(''Fire'',
       [(''slashing'', [(''Flame Claw'', 35, ''Slashes with burning claws'')]),
        (''fire'', [(''Inferno Blast'', 45, ''Unleashes a torrent of flames'')]),
        (''magic'', [(''Fire Storm'', 40, ''Conjures a magical fire storm'')]),
        (''biting'', [(''Ember Bite'', 30, ''Bites with flame-wreathed fangs'')])]),
     (''Water'',
       [(''slashing'', [(''Ice Claw'', 32, ''Strikes with frozen talons'')]),
        (''fire'', [(''Steam Burst'', 38, ''Superheated water explosion'')]),
        (''magic'', [(''Tidal Wave'', 42, ''Summons a crushing wave'')]),
        (''biting'', [(''Frost Bite'', 28, ''Freezing bite that slows enemies'')])]),
     (''Earth'',
       [(''slashing'', [(''Stone Claw'', 38, ''Cuts with razor-sharp stone'')]),
        (''magic'', [(''Earthquake'', 50, ''Shakes the ground violently'')]),
        (''physical'', [(''Boulder Throw'', 45, ''Hurls massive rocks'')])]),
     (''Air'',
       [(''slashing'', [(''Wind Blade'', 35, ''Cuts with compressed air'')]),
        (''magic'', [(''Lightning Strike'', 48, ''Calls down electric fury'')]),
        (''physical'', [(''Gust Slam'', 40, ''Powerful wind attack'')])]),
     (''Dark'',
       [(''slashing'', [(''Shadow Claw'', 36, ''Strikes from darkness'')]),
        (''magic'', [(''Void Drain'', 25, ''Drains life force from enemy'')]),
        (''physical'', [(''Terror Strike'', 42, ''Frightening physical assault'')])]),
     (''Light'',
       [(''slashing'', [(''Radiant Slash'', 38, ''Cuts with holy light'')]),
        (''magic'', [(''Divine Ray'', 44, ''Blasts with pure light'')]),
        (''physical'', [(''Blessing Strike'', 35, ''Heals self while attacking'')])])]"

definition utility_attacks :: "int \<Rightarrow> (string \<times> template) list" where
  "utility_attacks hp' =
    [(''heal'', (''Regenerate'', 0, ''Restores '' @ str_of_int (hp' div 5) @ '' HP'')),
     (''shield'', (''Fortify'', 0, ''Reduces next attack by 50%'')),
     (''buff'', (''Power Up'', 0, ''Next attack deals double damage''))]"

definition damage_multipliers :: "(string \<times> float) list" where
  "damage_multipliers =
    [(''Common'', float_lit 9 10), (''Uncommon'', float_lit 10 10),
     (''Rare'', float_lit 11 10), (''Epic'', float_lit 12 10),
     (''Legendary'', float_lit 13 10)]"

text \<open>
  The primary attack. \<^verbatim>\<open>damage_multiplier\<close> is assigned only inside the branch, so
  the block returns it as an option: \<^verbatim>\<open>None\<close> is the unassigned variable.
\<close>

definition primary_attack ::
    "template list \<Rightarrow> string \<Rightarrow> rng \<Rightarrow> error + (attack list \<times> float option \<times> rng)" where
  "primary_attack style_attacks rarity' g =
    (if style_attacks \<noteq> [] then
       (case random_choice style_attacks g of
          Inl e \<Rightarrow> Inl e
        | Inr ((aname, base_damage, descr), g1) \<Rightarrow>
            (case dict_lookup damage_multipliers rarity' of
               Inl e \<Rightarrow> Inl e
             | Inr damage_multiplier \<Rightarrow>
                 (let final_damage =
                        max 15 (py_int (fmul (float_of_int base_damage) damage_multiplier))
                  in Inr ([\<lparr> attack_name = aname, damage = final_damage, description = descr \<rparr>],
                          Some damage_multiplier, g1))))
     else Inr ([], None, g))"

text \<open>The secondary attack: a weaker offensive attack, or one of the utility actions.\<close>

definition secondary_attack ::
    "string list \<Rightarrow> (string \<times> template list) list \<Rightarrow> template list \<Rightarrow> float option
      \<Rightarrow> int \<Rightarrow> rng \<Rightarrow> error + (attack list \<times> rng)" where
  "secondary_attack styles element_attacks style_attacks damage_multiplier hp' g =
    (case random_random g of (r, g1) \<Rightarrow>
       if r < float_lit 7 10 then
         (let secondary_styles = (if length styles > 1 then tl styles else [''magic''])
          in if secondary_styles \<noteq> [] then
               (let secondary_style = hd secondary_styles;
                    secondary_attacks = dict_get element_attacks secondary_style style_attacks
                in if secondary_attacks \<noteq> [] then
                     (case random_choice secondary_attacks g1 of
                        Inl e \<Rightarrow> Inl e
                      | Inr ((aname, base_damage, descr), g2) \<Rightarrow>
                          (case damage_multiplier of
                             None \<Rightarrow> Inl UnboundLocalError
                           | Some dm \<Rightarrow>
                               (let final_damage =
                                      max 10 (py_int (fmul (fmul (float_of_int base_damage) dm)
                                                           (float_lit 8 10)))
                                in Inr ([\<lparr> attack_name = aname, damage = final_damage,
                                           description = descr \<rparr>], g2))))
                   else Inr ([], g1))
             else Inr ([], g1))
       else
         (case random_choice (map fst (utility_attacks hp')) g1 of
            Inl e \<Rightarrow> Inl e
          | Inr (utility_type, g2) \<Rightarrow>
              (case dict_lookup (utility_attacks hp') utility_type of
                 Inl e \<Rightarrow> Inl e
               | Inr (aname, dmg, descr) \<Rightarrow>
                   Inr ([\<lparr> attack_name = aname, damage = dmg, description = descr \<rparr>], g2))))"

definition generate_contextual_attacks ::
    "characteristics \<Rightarrow> string \<Rightarrow> int \<Rightarrow> string \<Rightarrow> rng \<Rightarrow> error + (attack list \<times> rng)" where
  "generate_contextual_attacks ch element hp' rarity' g =
    (let ctype = creature_type ch;
         styles = combat_styles ch;
         primary_style = (if styles \<noteq> [] then hd styles else ''physical'')
     in case dict_lookup attack_templates ''Fire'' of
          Inl e \<Rightarrow> Inl e
        | Inr fire_attacks \<Rightarrow>
            (let element_attacks = dict_get attack_templates element fire_attacks;
                 style_attacks =
                   dict_get element_attacks primary_style
                     (dict_get element_attacks ''physical'' [(''Strike'', 30, ''Basic attack'')])
             in case primary_attack style_attacks rarity' g of
                  Inl e \<Rightarrow> Inl e
                | Inr (attacks1, damage_multiplier, g1) \<Rightarrow>
                    (case secondary_attack styles element_attacks style_attacks
                            damage_multiplier hp' g1 of
                       Inl e \<Rightarrow> Inl e
                     | Inr (attacks2, g2) \<Rightarrow>
                         (let produced = attacks1 @ attacks2;
                              ensured =
                                (if length produced < 2
                                 then produced @ [\<lparr> attack_name = ''Basic Strike'', damage = 25,
                                        description = ''A simple but effective attack'' \<rparr>]
                                 else produced)
                          in Inr (take 2 ensured, g2)))))"

subsection \<open>Flavor text generator\<close>

definition flavor_templates :: "(string \<times> string list) list" where
  "flavor_templates =
    [(''dragon'',
       [''Ancient and wise, this dragon commands respect from all who encounter it.'',
        ''Born from the heart of a volcano, its rage burns eternal.'',
        ''Legends speak of its hoard hidden deep in mountain caves.'']),
     (''wolf'',
       [''A lone hunter that stalks its prey through moonlit forests.'',
        ''Leader of the pack, feared by all woodland creatures.'',
        ''Its howl echoes through the night, calling its kin to hunt.'']),
     (''bird'',
       [''Soaring high above the clouds, it surveys its domain below.'',
        ''Its keen eyes miss nothing as it patrols the skies.'',
        ''Graceful in flight, deadly when it strikes.'']),
     (''beast'',
       [''A fierce predator that rules its territory with strength.'',
        ''Its roar can be heard for miles, warning others to stay away.'',
        ''Perfectly adapted to survive in the harshest conditions.'']),
     (''elemental'',
       [''A manifestation of pure elemental energy given form.'',
        ''It exists between the physical and spiritual realms.'',
        ''Ancient magic binds this creature to the natural world.''])]"

definition generate_flavor_text ::
    "characteristics \<Rightarrow> string \<Rightarrow> rng \<Rightarrow> error + (string \<times> rng)" where
  "generate_flavor_text ch prompt g =
    (let ctype = creature_type ch
     in case dict_lookup flavor_templates ''beast'' of
          Inl e \<Rightarrow> Inl e
        | Inr beast_templates \<Rightarrow>
            random_choice (dict_get flavor_templates ctype beast_templates) g)"

subsection \<open>HP, rarity and the assembled card\<close>

text \<open>The weighted draw of \<^verbatim>\<open>base_hp\<close>.\<close>

definition draw_base_hp :: "rng \<Rightarrow> error + (int \<times> rng)" where
  "draw_base_hp g =
    (case random_random g of (r, g1) \<Rightarrow>
       if r < float_lit 8 10 then random_randint 40 100 g1
       else random_randint 100 150 g1)"

text \<open>The threshold chain on \<^verbatim>\<open>rarity_score\<close>.\<close>

definition rarity_for_score :: "float \<Rightarrow> string" where
  "rarity_for_score rarity_score =
    (if 12 \<le> rarity_score then ''Legendary''
     else if 9 \<le> rarity_score then ''Epic''
     else if 6 \<le> rarity_score then ''Rare''
     else if 4 \<le> rarity_score then ''Uncommon''
     else ''Common'')"

definition generate_stats_from_analysis ::
    "analysis \<Rightarrow> rng \<Rightarrow> error + (card_metadata \<times> rng)" where
  "generate_stats_from_analysis a g =
    (let power_level = apparent_power_level a;
         complexity = complexity_score a
     in case draw_base_hp g of
          Inl e \<Rightarrow> Inl e
        | Inr (base_hp, g1) \<Rightarrow>
            (let final_hp = max 20 (min 150 (py_int (fmul (float_of_int base_hp) power_level)));
                 rarity_score = fadd (float_of_int complexity) (fmul power_level (float_of_int 2));
                 rarity' = rarity_for_score rarity_score
             in case generate_creature_name (creature_characteristics a) (detected_element a) g1 of
                  Inl e \<Rightarrow> Inl e
                | Inr (name', g2) \<Rightarrow>
                    (case generate_contextual_attacks (creature_characteristics a)
                            (detected_element a) final_hp rarity' g2 of
                       Inl e \<Rightarrow> Inl e
                     | Inr (attacks', g3) \<Rightarrow>
                         (case generate_flavor_text (creature_characteristics a)
                                 (original_prompt a) g3 of
                            Inl e \<Rightarrow> Inl e
                          | Inr (flavor_text, g4) \<Rightarrow>
                              Inr (\<lparr> name = name', hp = final_hp,
                                     card_type = detected_element a, rarity = rarity',
                                     flavorText = flavor_text, attacks = attacks' \<rparr>, g4)))))"

text \<open>The entry point: classification of the prompt, then synthesis of the card.\<close>

definition analyze_image_and_generate_stats ::
    "string \<Rightarrow> string \<Rightarrow> rng \<Rightarrow> error + (card_metadata \<times> rng)" where
  "analyze_image_and_generate_stats image_url prompt g =
    (let vision_analysis = simulate_vision_analysis image_url prompt
     in generate_stats_from_analysis vision_analysis g)"

section \<open>Named values of the attack generator\<close>

text \<open>
  The values that \<^verbatim>\<open>generate_contextual_attacks\<close> binds to its local variables
  \<^verbatim>\<open>element_attacks\<close>, \<^verbatim>\<open>style_attacks\<close>, \<^verbatim>\<open>secondary_style\<close> and
  \<^verbatim>\<open>secondary_attacks\<close>, as functions of its arguments, so that statements about the
  generator can name them.
\<close>

definition element_attacks_of :: "string \<Rightarrow> (string \<times> template list) list" where
  "element_attacks_of element =
     dict_get attack_templates element (dict_get attack_templates ''Fire'' [])"

definition style_attacks_of :: "characteristics \<Rightarrow> string \<Rightarrow> template list" where
  "style_attacks_of ch element =
     (let styles = combat_styles ch;
          primary_style = (if styles \<noteq> [] then hd styles else ''physical'');
          element_attacks = element_attacks_of element
      in dict_get element_attacks primary_style
           (dict_get element_attacks ''physical'' [(''Strike'', 30, ''Basic attack'')]))"

definition secondary_style_of :: "characteristics \<Rightarrow> string" where
  "secondary_style_of ch =
     (let styles = combat_styles ch;
          secondary_styles = (if length styles > 1 then tl styles else [''magic''])
      in hd secondary_styles)"

definition secondary_attacks_of :: "characteristics \<Rightarrow> string \<Rightarrow> template list" where
  "secondary_attacks_of ch element =
     dict_get (element_attacks_of element) (secondary_style_of ch) (style_attacks_of ch element)"


text \<open>The position of a tier in \<^verbatim>\<open>RARITIES\<close>, which lists the tiers in ascending order.\<close>

definition rarity_rank :: "string \<Rightarrow> nat" where
  "rarity_rank r = length (takeWhile (\<lambda>x. x \<noteq> r) RARITIES)"

section \<open>Auxiliary facts\<close>

subsection \<open>Text and tables\<close>

lemma str_contains_sublist: "str_contains kw s = sublist kw s"
  by (induction s) (auto simp: sublist_Cons_right)

lemma dict_get_cases: "dict_get d k dflt = dflt \<or> (k, dict_get d k dflt) \<in> set d"
  by (auto simp: dict_get_def split: option.splits dest: map_of_SomeD)

lemma element_prefixes_nonempty: "dict_get element_prefixes element [''Ancient''] \<noteq> []"
  using dict_get_cases [of element_prefixes element "[''Ancient'']"]
  by (auto simp: element_prefixes_def)

lemma type_suffixes_nonempty: "dict_get type_suffixes ctype [''beast''] \<noteq> []"
  using dict_get_cases [of type_suffixes ctype "[''beast'']"]
  by (auto simp: type_suffixes_def)

lemma random_choice_Inr:
  "xs \<noteq> [] \<Longrightarrow> random_choice xs g = Inr (xs ! (shd g mod length xs), stl g)"
  by (simp add: random_choice_def)

lemma random_choice_single:
  "length xs = 1 \<Longrightarrow> random_choice xs g = Inr (hd xs, stl g)"
  by (cases xs) (simp_all add: random_choice_def)

lemma float_lit_08: "float_lit 8 10 = 3602879701896397 / 4503599627370496"
  by code_simp

lemma float_lit_07: "float_lit 7 10 = 3152519739159347 / 4503599627370496"
  by code_simp

lemma random_randint_range:
  assumes "a \<le> b"
  shows "\<exists>n. random_randint a b g = Inr (n, stl g) \<and> a \<le> n \<and> n \<le> b"
proof -
  have pos: "0 < nat (b - a + 1)" using assms by simp
  have "shd g mod nat (b - a + 1) < nat (b - a + 1)"
    using pos by (rule mod_less_divisor)
  then have "int (shd g mod nat (b - a + 1)) \<le> b - a" using assms by linarith
  then show ?thesis using assms by (simp add: random_randint_def)
qed

lemma draw_base_hp_cases:
  "\<exists>b. draw_base_hp g = Inr (b, sdrop 2 g) \<and>
     (if fst (random_random g) < float_lit 8 10
      then random_randint 40 100 (snd (random_random g)) = Inr (b, sdrop 2 g) \<and> 40 \<le> b \<and> b \<le> 100
      else random_randint 100 150 (snd (random_random g)) = Inr (b, sdrop 2 g) \<and> 100 \<le> b \<and> b \<le> 150)"
proof (cases "fst (random_random g) < float_lit 8 10")
  case True
  obtain n where "random_randint 40 100 (stl g) = Inr (n, stl (stl g))" "40 \<le> n" "n \<le> 100"
    using random_randint_range [of 40 100 "stl g"] by auto
  with True show ?thesis
    by (simp add: draw_base_hp_def random_random_def numeral_2_eq_2)
next
  case False
  obtain n where "random_randint 100 150 (stl g) = Inr (n, stl (stl g))" "100 \<le> n" "n \<le> 150"
    using random_randint_range [of 100 150 "stl g"] by auto
  with False show ?thesis
    by (simp add: draw_base_hp_def random_random_def numeral_2_eq_2)
qed

subsection \<open>Closed forms of the generators\<close>

lemma generate_creature_name_closed:
  "generate_creature_name ch element g =
     Inr (dict_get element_prefixes element [''Ancient'']
            ! (shd g mod length (dict_get element_prefixes element [''Ancient'']))
          @ dict_get type_suffixes (creature_type ch) [''beast'']
            ! (shd (stl g) mod length (dict_get type_suffixes (creature_type ch) [''beast''])),
          sdrop 2 g)"
  by (simp add: generate_creature_name_def Let_def random_choice_Inr
        element_prefixes_nonempty type_suffixes_nonempty numeral_2_eq_2)


lemma flavor_beast_lookup:
  "dict_lookup flavor_templates ''beast'' = Inr (dict_get flavor_templates ''beast'' [])"
  by (simp add: dict_lookup_def dict_get_def flavor_templates_def)

lemma flavor_templates_nonempty:
  "dict_get flavor_templates ctype (dict_get flavor_templates ''beast'' []) \<noteq> []"
  using dict_get_cases [of flavor_templates ctype "dict_get flavor_templates ''beast'' []"]
  by (auto simp: flavor_templates_def dict_get_def)

lemma generate_flavor_text_closed:
  "generate_flavor_text ch prompt g =
     Inr (dict_get flavor_templates (creature_type ch) (dict_get flavor_templates ''beast'' [])
            ! (shd g mod length (dict_get flavor_templates (creature_type ch)
                                  (dict_get flavor_templates ''beast'' []))),
          sdrop 1 g)"
  by (simp add: generate_flavor_text_def Let_def flavor_beast_lookup random_choice_Inr
        flavor_templates_nonempty)

lemma all_templates_single:
  "(el, ea) \<in> set attack_templates \<Longrightarrow> (st, ts) \<in> set ea \<Longrightarrow> length ts = 1"
  by (auto simp: attack_templates_def)

lemma fire_lookup:
  "dict_lookup attack_templates ''Fire'' = Inr (dict_get attack_templates ''Fire'' [])"
  by (simp add: dict_lookup_def dict_get_def attack_templates_def)

lemma fire_member: "(''Fire'', dict_get attack_templates ''Fire'' []) \<in> set attack_templates"
  by (simp add: dict_get_def attack_templates_def)

lemma element_attacks_member: "\<exists>el. (el, element_attacks_of element) \<in> set attack_templates"
  using dict_get_cases [of attack_templates element "dict_get attack_templates ''Fire'' []"]
    fire_member
  by (auto simp: element_attacks_of_def)

lemma style_attacks_single: "length (style_attacks_of ch element) = 1"
proof -
  obtain el where el: "(el, element_attacks_of element) \<in> set attack_templates"
    using element_attacks_member by blast
  define ea where "ea = element_attacks_of element"
  define ps where "ps = (if combat_styles ch \<noteq> [] then hd (combat_styles ch) else ''physical'')"
  define phys where "phys = dict_get ea ''physical'' [(''Strike'', 30 :: int, ''Basic attack'')]"
  have phys1: "length phys = 1"
    using dict_get_cases [of ea "''physical''" "[(''Strike'', 30, ''Basic attack'')]"]
      all_templates_single [OF el] by (auto simp: phys_def ea_def)
  have "length (dict_get ea ps phys) = 1"
    using dict_get_cases [of ea ps phys] all_templates_single [OF el] phys1
    by (auto simp: ea_def)
  then show ?thesis
    by (simp add: style_attacks_of_def Let_def ea_def ps_def phys_def)
qed

lemma secondary_attacks_single: "length (secondary_attacks_of ch element) = 1"
proof -
  obtain el where el: "(el, element_attacks_of element) \<in> set attack_templates"
    using element_attacks_member by blast
  show ?thesis
    using dict_get_cases [of "element_attacks_of element" "secondary_style_of ch"
        "style_attacks_of ch element"]
      all_templates_single [OF el] style_attacks_single [of ch element]
    by (auto simp: secondary_attacks_of_def)
qed

lemma primary_attack_closed:
  assumes "length style_attacks = 1" and "dict_lookup damage_multipliers rarity' = Inr mult"
  shows "primary_attack style_attacks rarity' g =
     Inr ([\<lparr> attack_name = fst (hd style_attacks),
             damage = max 15 (py_int (fmul (float_of_int (fst (snd (hd style_attacks)))) mult)),
             description = snd (snd (hd style_attacks)) \<rparr>], Some mult, stl g)"
proof -
  have ne: "style_attacks \<noteq> []" using assms(1) by auto
  show ?thesis
    using assms ne
    by (simp add: primary_attack_def random_choice_single Let_def split: prod.splits)
qed

lemma utility_choice:
  "random_choice (map fst (utility_attacks hp')) g =
     Inr (fst (utility_attacks hp' ! (shd g mod 3)), stl g)"
proof -
  have "shd g mod 3 = 0 \<or> shd g mod 3 = 1 \<or> shd g mod 3 = 2" by linarith
  then show ?thesis
    by (auto simp: random_choice_def utility_attacks_def)
qed

lemma utility_lookup:
  "dict_lookup (utility_attacks hp') (fst (utility_attacks hp' ! (u mod 3))) =
     Inr (snd (utility_attacks hp' ! (u mod 3)))"
proof -
  have "u mod 3 = 0 \<or> u mod 3 = 1 \<or> u mod 3 = 2" by linarith
  then show ?thesis
    by (auto simp: dict_lookup_def utility_attacks_def)
qed

lemma secondary_attack_closed:
  assumes "length (dict_get element_attacks sec style_attacks) = 1"
    and "sec = hd (if length styles > 1 then tl styles else [''magic''])"
  shows "secondary_attack styles element_attacks style_attacks (Some mult) hp' g =
     Inr ([if fst (random_random g) < float_lit 7 10
           then \<lparr> attack_name = fst (hd (dict_get element_attacks sec style_attacks)),
                  damage = max 10 (py_int (fmul (fmul (float_of_int
                             (fst (snd (hd (dict_get element_attacks sec style_attacks))))) mult)
                             (float_lit 8 10))),
                  description = snd (snd (hd (dict_get element_attacks sec style_attacks))) \<rparr>
           else \<lparr> attack_name = fst (snd (utility_attacks hp' ! (shd (stl g) mod 3))),
                  damage = fst (snd (snd (utility_attacks hp' ! (shd (stl g) mod 3)))),
                  description = snd (snd (snd (utility_attacks hp' ! (shd (stl g) mod 3)))) \<rparr>],
          sdrop 2 g)"
proof -
  have ne1: "(if length styles > 1 then tl styles else [''magic'']) \<noteq> []"
    by (cases styles) (auto split: if_splits)
  have ne2: "dict_get element_attacks sec style_attacks \<noteq> []"
    using assms(1) by auto
  show ?thesis
  proof (cases "fst (random_random g) < float_lit 7 10")
    case True
    then show ?thesis
      using ne1 ne2 assms
      by (simp add: secondary_attack_def random_random_def random_choice_single Let_def
            numeral_2_eq_2 case_prod_beta)
  next
    case False
    then show ?thesis
      by (simp add: secondary_attack_def random_random_def utility_choice utility_lookup
            Let_def numeral_2_eq_2 case_prod_beta)
  qed
qed

lemma generate_contextual_attacks_unfold:
  "generate_contextual_attacks ch element hp' rarity' g =
    (case primary_attack (style_attacks_of ch element) rarity' g of
       Inl e \<Rightarrow> Inl e
     | Inr (attacks1, damage_multiplier, g1) \<Rightarrow>
         (case secondary_attack (combat_styles ch) (element_attacks_of element)
                 (style_attacks_of ch element) damage_multiplier hp' g1 of
            Inl e \<Rightarrow> Inl e
          | Inr (attacks2, g2) \<Rightarrow>
              Inr (take 2 (if length (attacks1 @ attacks2) < 2
                           then (attacks1 @ attacks2) @
                                [\<lparr> attack_name = ''Basic Strike'', damage = 25,
                                   description = ''A simple but effective attack'' \<rparr>]
                           else attacks1 @ attacks2), g2)))"
  unfolding generate_contextual_attacks_def style_attacks_of_def element_attacks_of_def
    Let_def fire_lookup sum.case
  by (rule refl)

lemma generate_contextual_attacks_closed:
  assumes "dict_lookup damage_multipliers rarity' = Inr mult"
  shows "generate_contextual_attacks ch element hp' rarity' g =
     Inr ([\<lparr> attack_name = fst (hd (style_attacks_of ch element)),
             damage = max 15 (py_int (fmul (float_of_int
                        (fst (snd (hd (style_attacks_of ch element))))) mult)),
             description = snd (snd (hd (style_attacks_of ch element))) \<rparr>,
           if fst (random_random (stl g)) < float_lit 7 10
           then \<lparr> attack_name = fst (hd (secondary_attacks_of ch element)),
                  damage = max 10 (py_int (fmul (fmul (float_of_int
                             (fst (snd (hd (secondary_attacks_of ch element))))) mult)
                             (float_lit 8 10))),
                  description = snd (snd (hd (secondary_attacks_of ch element))) \<rparr>
           else \<lparr> attack_name = fst (snd (utility_attacks hp' ! (shd (stl (stl g)) mod 3))),
                  damage = fst (snd (snd (utility_attacks hp' ! (shd (stl (stl g)) mod 3)))),
                  description =
                    snd (snd (snd (utility_attacks hp' ! (shd (stl (stl g)) mod 3)))) \<rparr>],
          sdrop 3 g)"
proof -
  have sec: "secondary_style_of ch =
      hd (if length (combat_styles ch) > 1 then tl (combat_styles ch) else [''magic''])"
    by (simp add: secondary_style_of_def Let_def)
  have one: "length (dict_get (element_attacks_of element) (secondary_style_of ch)
      (style_attacks_of ch element)) = 1"
    using secondary_attacks_single [of ch element] by (simp add: secondary_attacks_of_def)
  have three: "sdrop 2 (stl g) = sdrop 3 g"
    by (simp add: eval_nat_numeral)
  show ?thesis
    unfolding generate_contextual_attacks_unfold
      primary_attack_closed [OF style_attacks_single assms]
    by (simp add: secondary_attack_closed [OF one sec] secondary_attacks_of_def three)
qed

lemma rarity_has_multiplier:
  "\<exists>mult. dict_lookup damage_multipliers (rarity_for_score s) = Inr mult"
  by (simp add: rarity_for_score_def damage_multipliers_def dict_lookup_def)

lemma generate_contextual_attacks_total:
  "\<exists>a1 a2. generate_contextual_attacks ch element hp' (rarity_for_score s) g
      = Inr ([a1, a2], sdrop 3 g)"
proof -
  obtain mult where "dict_lookup damage_multipliers (rarity_for_score s) = Inr mult"
    using rarity_has_multiplier by blast
  from generate_contextual_attacks_closed [OF this] show ?thesis by blast
qed

lemma generate_stats_from_analysis_unfold:
  assumes "draw_base_hp g = Inr (base_hp, g1)"
    and "generate_creature_name (creature_characteristics a) (detected_element a) g1
          = Inr (nm, g2)"
    and "generate_contextual_attacks (creature_characteristics a) (detected_element a)
           (max 20 (min 150 (py_int (fmul (float_of_int base_hp) (apparent_power_level a)))))
           (rarity_for_score (fadd (float_of_int (complexity_score a))
              (fmul (apparent_power_level a) (float_of_int 2)))) g2 = Inr (atks, g3)"
    and "generate_flavor_text (creature_characteristics a) (original_prompt a) g3
          = Inr (ft, g4)"
  shows "generate_stats_from_analysis a g =
     Inr (\<lparr> name = nm,
            hp = max 20 (min 150 (py_int (fmul (float_of_int base_hp) (apparent_power_level a)))),
            card_type = detected_element a,
            rarity = rarity_for_score (fadd (float_of_int (complexity_score a))
              (fmul (apparent_power_level a) (float_of_int 2))),
            flavorText = ft, attacks = atks \<rparr>, g4)"
  using assms by (simp add: generate_stats_from_analysis_def Let_def)

lemma generate_stats_from_analysis_closed:
  fixes a :: analysis and g :: rng and base_hp :: int and mult :: float
  defines "ch \<equiv> creature_characteristics a"
    and "el \<equiv> detected_element a"
    and "final_hp \<equiv>
      max 20 (min 150 (py_int (fmul (float_of_int base_hp) (apparent_power_level a))))"
    and "rar \<equiv> rarity_for_score (fadd (float_of_int (complexity_score a))
      (fmul (apparent_power_level a) (float_of_int 2)))"
  assumes base: "draw_base_hp g = Inr (base_hp, sdrop 2 g)"
    and mult: "dict_lookup damage_multipliers rar = Inr mult"
  shows "generate_stats_from_analysis a g =
    Inr (\<lparr> name =
             dict_get element_prefixes el [''Ancient'']
               ! (g !! 2 mod length (dict_get element_prefixes el [''Ancient'']))
             @ dict_get type_suffixes (creature_type ch) [''beast'']
               ! (g !! 3 mod length (dict_get type_suffixes (creature_type ch) [''beast''])),
           hp = final_hp,
           card_type = el,
           rarity = rar,
           flavorText =
             dict_get flavor_templates (creature_type ch) (dict_get flavor_templates ''beast'' [])
               ! (g !! 7 mod length (dict_get flavor_templates (creature_type ch)
                                       (dict_get flavor_templates ''beast'' []))),
           attacks =
             [\<lparr> attack_name = fst (hd (style_attacks_of ch el)),
                 damage = max 15 (py_int (fmul (float_of_int
                            (fst (snd (hd (style_attacks_of ch el))))) mult)),
                 description = snd (snd (hd (style_attacks_of ch el))) \<rparr>,
              if fst (random_random (sdrop 5 g)) < float_lit 7 10
              then \<lparr> attack_name = fst (hd (secondary_attacks_of ch el)),
                     damage = max 10 (py_int (fmul (fmul (float_of_int
                                (fst (snd (hd (secondary_attacks_of ch el))))) mult)
                                (float_lit 8 10))),
                     description = snd (snd (hd (secondary_attacks_of ch el))) \<rparr>
              else \<lparr> attack_name = fst (snd (utility_attacks final_hp ! (g !! 6 mod 3))),
                     damage = fst (snd (snd (utility_attacks final_hp ! (g !! 6 mod 3)))),
                     description = snd (snd (snd (utility_attacks final_hp ! (g !! 6 mod 3)))) \<rparr>]
         \<rparr>, sdrop 8 g)"
proof -
  have s5: "stl (sdrop 4 g) = sdrop 5 g" and s6: "shd (stl (stl (sdrop 4 g))) = g !! 6"
    and s3: "shd (stl (sdrop 2 g)) = g !! 3"
    by (simp_all add: eval_nat_numeral)
  have nm: "generate_creature_name ch el (sdrop 2 g) =
      Inr (dict_get element_prefixes el [''Ancient'']
               ! (g !! 2 mod length (dict_get element_prefixes el [''Ancient'']))
             @ dict_get type_suffixes (creature_type ch) [''beast'']
               ! (g !! 3 mod length (dict_get type_suffixes (creature_type ch) [''beast''])),
           sdrop 4 g)"
    by (simp add: generate_creature_name_closed s3)
  note atk = generate_contextual_attacks_closed [OF mult [unfolded rar_def],
      of ch el final_hp "sdrop 4 g", unfolded s5 s6]
  have ft: "generate_flavor_text ch (original_prompt a) (sdrop 7 g) =
      Inr (dict_get flavor_templates (creature_type ch) (dict_get flavor_templates ''beast'' [])
               ! (g !! 7 mod length (dict_get flavor_templates (creature_type ch)
                                       (dict_get flavor_templates ''beast'' []))),
           sdrop 8 g)"
    by (simp add: generate_flavor_text_closed)
  have s7: "sdrop 3 (sdrop 4 g) = sdrop 7 g" by simp
  show ?thesis
    using generate_stats_from_analysis_unfold [OF base nm [unfolded ch_def el_def]
        atk [unfolded s7 ch_def el_def final_hp_def] ft [unfolded ch_def]]
    by (simp add: ch_def el_def final_hp_def rar_def)
qed

text \<open>Every run of the synthesis returns a card; its HP and attacks come as follows.\<close>

lemma synthesis_returns:
  "\<exists>base_hp mult.
     draw_base_hp g = Inr (base_hp, sdrop 2 g)
     \<and> (if fst (random_random g) < float_lit 8 10
         then random_randint 40 100 (snd (random_random g)) = Inr (base_hp, sdrop 2 g)
              \<and> 40 \<le> base_hp \<and> base_hp \<le> 100
         else random_randint 100 150 (snd (random_random g)) = Inr (base_hp, sdrop 2 g)
              \<and> 100 \<le> base_hp \<and> base_hp \<le> 150)
     \<and> dict_lookup damage_multipliers
           (rarity_for_score (fadd (float_of_int (complexity_score a))
              (fmul (apparent_power_level a) (float_of_int 2)))) = Inr mult"
  using draw_base_hp_cases [of g] rarity_has_multiplier by blast

subsection \<open>Classification loops\<close>

lemma detect_power_find:
  "detect_power tbl prompt_lower dflt =
     (case find (\<lambda>(indicator, multiplier). str_contains indicator prompt_lower) tbl of
        None \<Rightarrow> dflt | Some (indicator, multiplier) \<Rightarrow> multiplier)"
  by (induction tbl) auto

lemma detect_type_none:
  "\<not> list_ex (\<lambda>(ctype, keywords). any_in keywords prompt_lower) tbl
     \<Longrightarrow> detect_type tbl prompt_lower dflt = dflt"
  by (induction tbl) auto

lemma detect_element_none:
  "\<not> list_ex (\<lambda>(element, keywords). any_in keywords prompt_lower) tbl
     \<Longrightarrow> detect_element tbl prompt_lower dflt = dflt"
  by (induction tbl) auto

lemma lower_example_1:
  "str_lower ''legendary ancient massive dragon'' = ''legendary ancient massive dragon''"
  by (simp add: str_lower_def lower_char_def is_upper_def)

lemma float_lit_distinct_3_18: "float_lit 3 10 \<noteq> float_lit 18 10"
  by code_simp

subsection \<open>Draws\<close>

text \<open>The synthesis reads the generator only through its first eight outcomes.\<close>

lemma stake_eq_snth: "stake n g = stake n g' \<Longrightarrow> k < n \<Longrightarrow> g !! k = g' !! k"
  by (metis stake_nth)

lemma draw_base_hp_prefix:
  assumes "g !! 0 = g' !! 0" and "g !! 1 = g' !! 1"
    and "draw_base_hp g = Inr (b, sdrop 2 g)"
  shows "draw_base_hp g' = Inr (b, sdrop 2 g')"
  using assms
  by (auto simp: draw_base_hp_def random_random_def random_randint_def numeral_2_eq_2
        split: if_splits)

lemma simulate_vision_analysis_ignores_image:
  "simulate_vision_analysis image_url prompt = simulate_vision_analysis image_url' prompt"
  by (simp add: simulate_vision_analysis_def)

subsection \<open>Flavor table, congruences and evaluated examples\<close>

lemma flavor_unmapped:
  "ctype \<in> set [''demon'', ''angel'', ''undead''] \<Longrightarrow>
   dict_get flavor_templates ctype (dict_get flavor_templates ''beast'' []) =
     [''A fierce predator that rules its territory with strength.'',
      ''Its roar can be heard for miles, warning others to stay away.'',
      ''Perfectly adapted to survive in the harshest conditions.'']"
  by (auto simp: dict_get_def flavor_templates_def)

lemma style_attacks_of_cong:
  "combat_styles ch = combat_styles ch' \<Longrightarrow> style_attacks_of ch el = style_attacks_of ch' el"
  by (simp add: style_attacks_of_def)

lemma secondary_attacks_of_cong:
  "combat_styles ch = combat_styles ch' \<Longrightarrow>
   secondary_attacks_of ch el = secondary_attacks_of ch' el"
  by (simp add: secondary_attacks_of_def secondary_style_of_def style_attacks_of_def)

lemma demon_example:
  "creature_type (creature_characteristics (simulate_vision_analysis [] ''a winged demon''))
     = ''demon''"
  by code_simp

lemma descriptor_examples:
  "apparent_power_level (simulate_vision_analysis [] ''xyzzy qq'')
     = apparent_power_level (simulate_vision_analysis [] ''xyz qqqqq'')"
  "detected_element (simulate_vision_analysis [] ''xyzzy qq'')
     = detected_element (simulate_vision_analysis [] ''xyz qqqqq'')"
  "complexity_score (simulate_vision_analysis [] ''xyzzy qq'')
     = complexity_score (simulate_vision_analysis [] ''xyz qqqqq'')"
  "creature_type (creature_characteristics (simulate_vision_analysis [] ''xyzzy qq''))
     = creature_type (creature_characteristics (simulate_vision_analysis [] ''xyz qqqqq''))"
  "combat_styles (creature_characteristics (simulate_vision_analysis [] ''xyzzy qq''))
     = combat_styles (creature_characteristics (simulate_vision_analysis [] ''xyz qqqqq''))"
  "descriptors (creature_characteristics (simulate_vision_analysis [] ''xyzzy qq''))
     = [''xyzzy'']"
  "descriptors (creature_characteristics (simulate_vision_analysis [] ''xyz qqqqq''))
     = [''qqqqq'']"
  by code_simp+

subsection \<open>Attack damage\<close>

lemma utility_damage_zero: "fst (snd (snd (utility_attacks hp' ! (u mod 3)))) = 0"
proof -
  have "u mod 3 = 0 \<or> u mod 3 = 1 \<or> u mod 3 = 2" by linarith
  then show ?thesis by (auto simp: utility_attacks_def)
qed

lemma single_eq_hd: "length xs = 1 \<Longrightarrow> xs = [hd xs]"
  by (cases xs) simp_all

subsection \<open>The secondary fallback, and an evaluated run\<close>

lemma dict_get_absent: "map_of d k = None \<Longrightarrow> dict_get d k dflt = dflt"
  by (simp add: dict_get_def)

lemma burning_rock_claws:
  "detected_element (simulate_vision_analysis [] ''burning rock claws'') = ''Earth''"
  "combat_styles (creature_characteristics (simulate_vision_analysis [] ''burning rock claws''))
     = [''slashing'', ''fire'']"
  "secondary_style_of (creature_characteristics
     (simulate_vision_analysis [] ''burning rock claws'')) = ''fire''"
  "map_of (element_attacks_of ''Earth'') ''fire'' = None"
  "dict_get (element_attacks_of ''Earth'') ''physical'' [(''Strike'', 30, ''Basic attack'')]
     = [(''Boulder Throw'', 45, ''Hurls massive rocks'')]"
  "style_attacks_of (creature_characteristics
     (simulate_vision_analysis [] ''burning rock claws'')) ''Earth''
     = [(''Stone Claw'', 38, ''Cuts with razor-sharp stone'')]"
  "secondary_attacks_of (creature_characteristics
     (simulate_vision_analysis [] ''burning rock claws'')) ''Earth''
     = [(''Stone Claw'', 38, ''Cuts with razor-sharp stone'')]"
  "dict_lookup damage_multipliers
       (rarity_for_score (fadd (float_of_int (complexity_score
           (simulate_vision_analysis [] ''burning rock claws'')))
          (fmul (apparent_power_level (simulate_vision_analysis [] ''burning rock claws''))
             (float_of_int 2)))) = Inr (float_lit 10 10)"
  "max 15 (py_int (fmul (float_of_int 38) (float_lit 10 10))) = 38"
  "max 10 (py_int (fmul (fmul (float_of_int 38) (float_lit 10 10)) (float_lit 8 10))) = 30"
  by code_simp+

lemma coin_zero: "fst (random_random (sdrop 5 (sconst 0))) < float_lit 7 10"
  by (simp add: random_random_def float_lit_07)

lemma draw_base_hp_zero: "draw_base_hp (sconst 0) = Inr (40, sdrop 2 (sconst 0))"
  by (simp add: draw_base_hp_def random_random_def random_randint_def float_lit_08
        numeral_2_eq_2)

subsection \<open>Rounded products and the ranges of the generator\<close>

text \<open>
  The products are those of the doubles, not of the decimals: \<^verbatim>\<open>int(90 * 0.7)\<close> is 62.
  The coin of a draw falls below \<^verbatim>\<open>0.8\<close> for 7205759403792794 of its \<open>2\<^sup>5\<^sup>3\<close>
  outcomes, and \<^verbatim>\<open>randint(a, b)\<close> reaches every integer of \<open>[a, b]\<close>.
\<close>

lemma float_product_examples:
  "py_int (fmul (float_of_int 90) (float_lit 7 10)) = 62"
  "py_int (fmul (float_of_int 45) (float_lit 14 10)) = 62"
  "max 20 (min 150 (py_int (fmul (float_of_int 100) (float_lit 15 10)))) = 150"
  by code_simp+

lemma coin_below_08:
  "fst (random_random g) < float_lit 8 10 \<longleftrightarrow> shd g mod 2 ^ 53 < 7205759403792794"
proof -
  have "(of_nat (shd g mod 2 ^ 53) :: rat) / 2 ^ 53 < 3602879701896397 / 4503599627370496
      \<longleftrightarrow> (of_nat (shd g mod 2 ^ 53) :: rat) < 7205759403792794"
    by (simp add: field_simps)
  also have "\<dots> \<longleftrightarrow> shd g mod 2 ^ 53 < 7205759403792794"
    by (metis of_nat_less_iff of_nat_numeral)
  finally show ?thesis by (simp add: random_random_def float_lit_08)
qed

lemma random_randint_onto:
  assumes "a \<le> n" and "n \<le> b"
  shows "random_randint a b (nat (n - a) ## g) = Inr (n, g)"
  using assms by (simp add: random_randint_def)

subsection \<open>Whitespace and case beyond ASCII\<close>

text \<open>
  A no-break space separates tokens, so the prompt \<^verbatim>\<open>a\<close>, \<^verbatim>\<open>b\<close>, \<^verbatim>\<open>c\<close>, \<^verbatim>\<open>d\<close>
  joined by no-break spaces has four tokens, score \<open>4 + 2.0\<close> and rarity Rare; an
  upper-case letter of the upper half is lower-cased, the multiplication sign is not.
\<close>

lemma latin1_examples:
  "str_split [CHR ''a'', CHR 0xA0, CHR ''b'', CHR 0xA0, CHR ''c'', CHR 0xA0, CHR ''d'']
     = [''a'', ''b'', ''c'', ''d'']"
  "str_split [CHR ''a'', CHR 0x85, CHR ''b''] = [''a'', ''b'']"
  "complexity_score (simulate_vision_analysis []
     [CHR ''a'', CHR 0xA0, CHR ''b'', CHR 0xA0, CHR ''c'', CHR 0xA0, CHR ''d'']) = 4"
  "rarity_for_score (fadd (float_of_int 4) (fmul (float_lit 10 10) (float_of_int 2))) = ''Rare''"
  "str_lower [CHR 0xC9, CHR 0xD7, CHR 0xDE, CHR ''Z''] = [CHR 0xE9, CHR 0xD7, CHR 0xFE, CHR ''z'']"
  by code_simp+

section \<open>The claims\<close>

text \<open>
  Claim C1. For every prompt and every sequence of draws, the synthesis returns a card
  whose \<^verbatim>\<open>hp\<close> is an integer between 20 and 150: the truncation of the floating-point
  product of \<^verbatim>\<open>base_hp\<close> and the power multiplier, clamped to \<open>[20, 150]\<close>. The first
  draw is the coin: below \<^verbatim>\<open>0.8\<close> the second draw gives \<^verbatim>\<open>base_hp\<close> by
  \<^verbatim>\<open>randint(40, 100)\<close>, otherwise by \<^verbatim>\<open>randint(100, 150)\<close>.
\<close>

theorem hp_clamped_truncated_product:
  "\<exists>card g' base_hp g1.
     analyze_image_and_generate_stats image_url prompt g = Inr (card, g')
     \<and> draw_base_hp g = Inr (base_hp, g1)
     \<and> (if fst (random_random g) < float_lit 8 10
         then random_randint 40 100 (snd (random_random g)) = Inr (base_hp, g1)
              \<and> 40 \<le> base_hp \<and> base_hp \<le> 100
         else random_randint 100 150 (snd (random_random g)) = Inr (base_hp, g1)
              \<and> 100 \<le> base_hp \<and> base_hp \<le> 150)
     \<and> hp card = max 20 (min 150 (py_int (fmul (float_of_int base_hp)
           (apparent_power_level (simulate_vision_analysis image_url prompt)))))
     \<and> 20 \<le> hp card \<and> hp card \<le> 150"
proof -
  define a where "a = simulate_vision_analysis image_url prompt"
  obtain base_hp mult where base: "draw_base_hp g = Inr (base_hp, sdrop 2 g)"
    and range: "if fst (random_random g) < float_lit 8 10
         then random_randint 40 100 (snd (random_random g)) = Inr (base_hp, sdrop 2 g)
              \<and> 40 \<le> base_hp \<and> base_hp \<le> 100
         else random_randint 100 150 (snd (random_random g)) = Inr (base_hp, sdrop 2 g)
              \<and> 100 \<le> base_hp \<and> base_hp \<le> 150"
    and mult: "dict_lookup damage_multipliers
       (rarity_for_score (fadd (float_of_int (complexity_score a))
          (fmul (apparent_power_level a) (float_of_int 2)))) = Inr mult"
    using synthesis_returns [of g a] by blast
  note card = generate_stats_from_analysis_closed [OF base mult]
  show ?thesis
    apply (simp only: analyze_image_and_generate_stats_def Let_def a_def [symmetric] card)
    apply (intro exI conjI)
        apply (rule refl)
       apply (rule base)
      apply (rule range)
     apply simp
    apply simp
    apply simp
    done
qed

text \<open>
  Claim C2. For every prompt and every sequence of draws of the random number generator,
  the synthesis returns a card whose \<^verbatim>\<open>attacks\<close> list has exactly two entries.
\<close>

theorem attacks_length_two:
  "\<exists>card g'. analyze_image_and_generate_stats image_url prompt g = Inr (card, g')
     \<and> length (attacks card) = 2"
proof -
  define a where "a = simulate_vision_analysis image_url prompt"
  obtain base_hp mult where
    "draw_base_hp g = Inr (base_hp, sdrop 2 g)"
    "dict_lookup damage_multipliers
       (rarity_for_score (fadd (float_of_int (complexity_score a))
          (fmul (apparent_power_level a) (float_of_int 2)))) = Inr mult"
    using synthesis_returns [of g a] by blast
  from generate_stats_from_analysis_closed [OF this] show ?thesis
    by (simp add: analyze_image_and_generate_stats_def a_def)
qed

text \<open>
  Claim C3. For every prompt the rarity of the card is the fixed threshold mapping of
  \<^verbatim>\<open>rarity_score = complexity_score + 2 * power_multiplier\<close> (12 and above Legendary, 9
  and above Epic, 6 and above Rare, 4 and above Uncommon, Common below), and the mapping is
  monotonic non-decreasing in the score for the order Common, Uncommon, Rare, Epic,
  Legendary.
\<close>

theorem rarity_threshold_mapping:
  "(\<exists>card g'.
      analyze_image_and_generate_stats image_url prompt g = Inr (card, g')
      \<and> rarity card =
          (let a = simulate_vision_analysis image_url prompt;
               rarity_score = fadd (float_of_int (complexity_score a))
                                (fmul (apparent_power_level a) (float_of_int 2))
           in if 12 \<le> rarity_score then ''Legendary''
              else if 9 \<le> rarity_score then ''Epic''
              else if 6 \<le> rarity_score then ''Rare''
              else if 4 \<le> rarity_score then ''Uncommon''
              else ''Common''))
   \<and> (\<forall>s t. s \<le> t \<longrightarrow> rarity_rank (rarity_for_score s) \<le> rarity_rank (rarity_for_score t))
   \<and> map rarity_rank [''Common'', ''Uncommon'', ''Rare'', ''Epic'', ''Legendary''] = [0, 1, 2, 3, 4]"
proof -
  define a where "a = simulate_vision_analysis image_url prompt"
  obtain base_hp mult where base: "draw_base_hp g = Inr (base_hp, sdrop 2 g)"
    and mult: "dict_lookup damage_multipliers
       (rarity_for_score (fadd (float_of_int (complexity_score a))
          (fmul (apparent_power_level a) (float_of_int 2)))) = Inr mult"
    using synthesis_returns [of g a] by blast
  note card = generate_stats_from_analysis_closed [OF base mult]
  have first: "\<exists>card g'.
      analyze_image_and_generate_stats image_url prompt g = Inr (card, g')
      \<and> rarity card =
          (let a = simulate_vision_analysis image_url prompt;
               rarity_score = fadd (float_of_int (complexity_score a))
                                (fmul (apparent_power_level a) (float_of_int 2))
           in if 12 \<le> rarity_score then ''Legendary''
              else if 9 \<le> rarity_score then ''Epic''
              else if 6 \<le> rarity_score then ''Rare''
              else if 4 \<le> rarity_score then ''Uncommon''
              else ''Common'')"
    by (simp add: analyze_image_and_generate_stats_def Let_def a_def [symmetric] card
          rarity_for_score_def)
  have ranks: "map rarity_rank [''Common'', ''Uncommon'', ''Rare'', ''Epic'', ''Legendary'']
      = [0, 1, 2, 3, 4]"
    by (simp add: rarity_rank_def RARITIES_def)
  have mono: "\<forall>s t. s \<le> t \<longrightarrow>
      rarity_rank (rarity_for_score s) \<le> rarity_rank (rarity_for_score t)"
    using ranks by (auto simp: rarity_for_score_def)
  show ?thesis using first mono ranks by blast
qed

theorem rarity_threshold_mapping_witness:
  "(5 :: rat) \<le> 10 \<and> rarity_rank (rarity_for_score 5) \<le> rarity_rank (rarity_for_score 10)"
proof -
  have h: "(5 :: rat) \<le> 10" by simp
  have c: "rarity_rank (rarity_for_score 5) \<le> rarity_rank (rarity_for_score 10)"
    using rarity_threshold_mapping [of "[]" "[]" "sconst 0"] h by blast
  show ?thesis by (rule conjI [OF h c])
qed

text \<open>
  Claim C4. The card is a function of the prompt and of the draws: two runs on the same
  prompt whose generators agree on the eight draws the synthesis makes return the same
  card in every field, whatever the image reference and whatever the generators hold
  beyond those draws.
\<close>

theorem synthesis_deterministic:
  assumes "stake 8 g = stake 8 g'"
  shows "\<exists>card. analyze_image_and_generate_stats image_url prompt g = Inr (card, sdrop 8 g)
           \<and> analyze_image_and_generate_stats image_url' prompt g' = Inr (card, sdrop 8 g')"
proof -
  define a where "a = simulate_vision_analysis image_url prompt"
  have a': "simulate_vision_analysis image_url' prompt = a"
    unfolding a_def by (rule simulate_vision_analysis_ignores_image)
  have draws: "g !! 0 = g' !! 0" "g !! 1 = g' !! 1" "g !! 2 = g' !! 2" "g !! 3 = g' !! 3"
    "g !! 5 = g' !! 5" "g !! 6 = g' !! 6" "g !! 7 = g' !! 7"
    by (rule stake_eq_snth [OF assms], simp)+
  obtain base_hp mult where base: "draw_base_hp g = Inr (base_hp, sdrop 2 g)"
    and mult: "dict_lookup damage_multipliers
       (rarity_for_score (fadd (float_of_int (complexity_score a))
          (fmul (apparent_power_level a) (float_of_int 2)))) = Inr mult"
    using synthesis_returns [of g a] by blast
  have base': "draw_base_hp g' = Inr (base_hp, sdrop 2 g')"
    using draw_base_hp_prefix [OF draws(1) draws(2) base] .
  have coin: "fst (random_random (sdrop 5 g)) = fst (random_random (sdrop 5 g'))"
    by (simp add: random_random_def draws)
  show ?thesis
    unfolding analyze_image_and_generate_stats_def Let_def a' a_def [symmetric]
      generate_stats_from_analysis_closed [OF base mult]
      generate_stats_from_analysis_closed [OF base' mult]
    by (simp add: draws coin)
qed

theorem synthesis_deterministic_witness:
  "stake 8 (sconst 0) = stake 8 (replicate 8 0 @- sconst (1 :: nat))
   \<and> (\<exists>card. analyze_image_and_generate_stats ''a.png'' ''fire dragon'' (sconst 0)
                 = Inr (card, sdrop 8 (sconst 0))
         \<and> analyze_image_and_generate_stats ''b.png'' ''fire dragon''
               (replicate 8 0 @- sconst 1) = Inr (card, sdrop 8 (replicate 8 0 @- sconst 1)))"
proof -
  have h: "stake 8 (sconst 0) = stake 8 (replicate 8 0 @- sconst (1 :: nat))"
    by (simp add: eval_nat_numeral)
  from synthesis_deterministic [OF h] have
    c: "\<exists>card. analyze_image_and_generate_stats ''a.png'' ''fire dragon'' (sconst 0)
                 = Inr (card, sdrop 8 (sconst 0))
         \<and> analyze_image_and_generate_stats ''b.png'' ''fire dragon''
               (replicate 8 0 @- sconst 1) = Inr (card, sdrop 8 (replicate 8 0 @- sconst 1))" .
  show ?thesis by (rule conjI [OF h c])
qed

text \<open>
  Claim C5, as amended. For every prompt the power multiplier is the multiplier of the first
  entry of the ordered size table (tiny 0.3, small 0.5, young 0.6, medium 0.7, large 1.2,
  huge 1.5, massive 1.8, giant 2.0, ancient 1.6, elder 1.4, baby 0.4, mighty 1.3) whose
  keyword is a substring of the lower-cased prompt, and 1.0 when there is none. In
  particular a prompt that contains \<^verbatim>\<open>massive\<close> and \<^verbatim>\<open>ancient\<close>, in either order, and
  none of the six keywords that precede \<^verbatim>\<open>massive\<close> in the table has multiplier 1.8.
\<close>

theorem power_multiplier_first_table_match:
  "apparent_power_level (simulate_vision_analysis image_url prompt) =
     (case find (\<lambda>(indicator, multiplier). str_contains indicator (str_lower prompt))
             [(''tiny'', float_lit 3 10), (''small'', float_lit 5 10),
              (''young'', float_lit 6 10), (''medium'', float_lit 7 10),
              (''large'', float_lit 12 10), (''huge'', float_lit 15 10),
              (''massive'', float_lit 18 10), (''giant'', float_lit 20 10),
              (''ancient'', float_lit 16 10), (''elder'', float_lit 14 10),
              (''baby'', float_lit 4 10), (''mighty'', float_lit 13 10)] of
        None \<Rightarrow> float_lit 10 10
      | Some (indicator, multiplier) \<Rightarrow> multiplier)
   \<and> (str_contains ''massive'' (str_lower prompt)
        \<and> str_contains ''ancient'' (str_lower prompt)
        \<and> \<not> any_in [''tiny'', ''small'', ''young'', ''medium'', ''large'', ''huge'']
               (str_lower prompt)
       \<longrightarrow> apparent_power_level (simulate_vision_analysis image_url prompt) = float_lit 18 10)"
proof -
  have eq: "apparent_power_level (simulate_vision_analysis image_url prompt) =
      detect_power size_indicators (str_lower prompt) (float_lit 10 10)"
    by (simp add: simulate_vision_analysis_def Let_def)
  have first: "detect_power size_indicators (str_lower prompt) (float_lit 10 10) =
     (case find (\<lambda>(indicator, multiplier). str_contains indicator (str_lower prompt))
             [(''tiny'', float_lit 3 10), (''small'', float_lit 5 10),
              (''young'', float_lit 6 10), (''medium'', float_lit 7 10),
              (''large'', float_lit 12 10), (''huge'', float_lit 15 10),
              (''massive'', float_lit 18 10), (''giant'', float_lit 20 10),
              (''ancient'', float_lit 16 10), (''elder'', float_lit 14 10),
              (''baby'', float_lit 4 10), (''mighty'', float_lit 13 10)] of
        None \<Rightarrow> float_lit 10 10
      | Some (indicator, multiplier) \<Rightarrow> multiplier)"
    unfolding detect_power_find size_indicators_def by (rule refl)
  have second: "str_contains ''massive'' (str_lower prompt)
        \<and> str_contains ''ancient'' (str_lower prompt)
        \<and> \<not> any_in [''tiny'', ''small'', ''young'', ''medium'', ''large'', ''huge'']
               (str_lower prompt)
       \<longrightarrow> detect_power size_indicators (str_lower prompt) (float_lit 10 10) = float_lit 18 10"
    by (simp add: size_indicators_def any_in_def)
  show ?thesis unfolding eq using first second by blast
qed

theorem power_multiplier_first_table_match_witness:
  "str_contains ''massive'' (str_lower ''legendary ancient massive dragon'')
   \<and> str_contains ''ancient'' (str_lower ''legendary ancient massive dragon'')
   \<and> \<not> any_in [''tiny'', ''small'', ''young'', ''medium'', ''large'', ''huge'']
          (str_lower ''legendary ancient massive dragon'')
   \<and> apparent_power_level (simulate_vision_analysis [] ''legendary ancient massive dragon'')
       = float_lit 18 10"
proof -
  have h: "str_contains ''massive'' (str_lower ''legendary ancient massive dragon'')
   \<and> str_contains ''ancient'' (str_lower ''legendary ancient massive dragon'')
   \<and> \<not> any_in [''tiny'', ''small'', ''young'', ''medium'', ''large'', ''huge'']
          (str_lower ''legendary ancient massive dragon'')"
    unfolding lower_example_1 by (simp add: any_in_def)
  have c: "apparent_power_level (simulate_vision_analysis [] ''legendary ancient massive dragon'')
       = float_lit 18 10"
    using power_multiplier_first_table_match [of "[]" "''legendary ancient massive dragon''"] h
    by blast
  show ?thesis using h c by blast
qed

text \<open>
  Claim C5 as first stated leaves out the six earlier keywords: the prompt
  \<^verbatim>\<open>tiny massive ancient dragon\<close> contains both \<^verbatim>\<open>massive\<close> and \<^verbatim>\<open>ancient\<close>, and its
  multiplier is 0.3.
\<close>

theorem massive_ancient_overridden_by_tiny:
  "str_contains ''massive'' (str_lower ''tiny massive ancient dragon'')
   \<and> str_contains ''ancient'' (str_lower ''tiny massive ancient dragon'')
   \<and> apparent_power_level (simulate_vision_analysis [] ''tiny massive ancient dragon'')
       = float_lit 3 10
   \<and> float_lit 3 10 \<noteq> float_lit 18 10"
proof -
  have l: "str_lower ''tiny massive ancient dragon'' = ''tiny massive ancient dragon''"
    by (simp add: str_lower_def lower_char_def is_upper_def)
  have "apparent_power_level (simulate_vision_analysis [] ''tiny massive ancient dragon'')
       = float_lit 3 10"
    by (simp add: simulate_vision_analysis_def Let_def l size_indicators_def)
  then show ?thesis
    unfolding l using float_lit_distinct_3_18 by simp
qed

text \<open>
  Claim C6. For every prompt in whose lower-cased text no archetype keyword, no element
  keyword and no combat-style keyword occurs, the archetype is \<^verbatim>\<open>beast\<close>, the element is
  \<^verbatim>\<open>Fire\<close> and the combat styles are exactly \<^verbatim>\<open>["physical"]\<close>. The classifiers are
  total functions into plain records: they have no failing branch.
\<close>

theorem unrecognised_prompt_defaults:
  assumes "\<not> list_ex (\<lambda>(ctype, keywords). any_in keywords (str_lower prompt)) creature_types"
    and "\<not> list_ex (\<lambda>(element, keywords). any_in keywords (str_lower prompt)) element_keywords"
    and "\<not> any_in [''claws'', ''talons'', ''sharp'', ''fire'', ''flame'', ''burning'',
                    ''magic'', ''spell'', ''enchanted'', ''bite'', ''teeth'', ''fangs'']
               (str_lower prompt)"
  shows "creature_type (creature_characteristics (simulate_vision_analysis image_url prompt))
           = ''beast''
       \<and> detected_element (simulate_vision_analysis image_url prompt) = ''Fire''
       \<and> combat_styles (creature_characteristics (simulate_vision_analysis image_url prompt))
           = [''physical'']
       \<and> creature_characteristics (simulate_vision_analysis image_url prompt)
           = extract_creature_characteristics prompt"
  using assms
  by (simp add: simulate_vision_analysis_def extract_creature_characteristics_def Let_def
        detect_type_none detect_element_none any_in_def)

theorem unrecognised_prompt_defaults_witness:
  "\<not> list_ex (\<lambda>(ctype, keywords). any_in keywords (str_lower ''xyz qqq'')) creature_types
   \<and> \<not> list_ex (\<lambda>(element, keywords). any_in keywords (str_lower ''xyz qqq'')) element_keywords
   \<and> \<not> any_in [''claws'', ''talons'', ''sharp'', ''fire'', ''flame'', ''burning'',
                ''magic'', ''spell'', ''enchanted'', ''bite'', ''teeth'', ''fangs'']
          (str_lower ''xyz qqq'')
   \<and> creature_type (creature_characteristics (simulate_vision_analysis [] ''xyz qqq''))
       = ''beast''
   \<and> detected_element (simulate_vision_analysis [] ''xyz qqq'') = ''Fire''
   \<and> combat_styles (creature_characteristics (simulate_vision_analysis [] ''xyz qqq''))
       = [''physical'']"
proof -
  have l: "str_lower ''xyz qqq'' = ''xyz qqq''"
    by (simp add: str_lower_def lower_char_def is_upper_def)
  have h1: "\<not> list_ex (\<lambda>(ctype, keywords). any_in keywords (str_lower ''xyz qqq''))
      creature_types"
    unfolding l by (simp add: creature_types_def any_in_def)
  have h2: "\<not> list_ex (\<lambda>(element, keywords). any_in keywords (str_lower ''xyz qqq''))
      element_keywords"
    unfolding l by (simp add: element_keywords_def any_in_def)
  have h3: "\<not> any_in [''claws'', ''talons'', ''sharp'', ''fire'', ''flame'', ''burning'',
                ''magic'', ''spell'', ''enchanted'', ''bite'', ''teeth'', ''fangs'']
          (str_lower ''xyz qqq'')"
    unfolding l by (simp add: any_in_def)
  from unrecognised_prompt_defaults [OF h1 h2 h3, of "[]"] h1 h2 h3
  show ?thesis by blast
qed

text \<open>
  Claim C9. The descriptor tokens are never scored: two prompts whose classifications agree
  on the power multiplier, the element, the complexity score, the archetype and the combat
  styles, and so differ at most in their descriptors (and in the prompt text kept with the
  analysis), yield under the same draws the same card: the same hp, rarity, element, name
  and attacks. The flavor text, the one field allowed to depend on the descriptors, is the
  same as well, since the flavor generator reads the archetype only.
\<close>

theorem descriptors_do_not_influence_card:
  assumes "apparent_power_level (simulate_vision_analysis image_url prompt)
             = apparent_power_level (simulate_vision_analysis image_url' prompt')"
    and "detected_element (simulate_vision_analysis image_url prompt)
             = detected_element (simulate_vision_analysis image_url' prompt')"
    and "complexity_score (simulate_vision_analysis image_url prompt)
             = complexity_score (simulate_vision_analysis image_url' prompt')"
    and "creature_type (creature_characteristics (simulate_vision_analysis image_url prompt))
             = creature_type (creature_characteristics
                 (simulate_vision_analysis image_url' prompt'))"
    and "combat_styles (creature_characteristics (simulate_vision_analysis image_url prompt))
             = combat_styles (creature_characteristics
                 (simulate_vision_analysis image_url' prompt'))"
  shows "\<exists>card g'.
      analyze_image_and_generate_stats image_url prompt g = Inr (card, g')
      \<and> analyze_image_and_generate_stats image_url' prompt' g = Inr (card, g')"
proof -
  define a where "a = simulate_vision_analysis image_url prompt"
  define a' where "a' = simulate_vision_analysis image_url' prompt'"
  have eqs: "apparent_power_level a' = apparent_power_level a"
    "detected_element a' = detected_element a"
    "complexity_score a' = complexity_score a"
    "creature_type (creature_characteristics a') = creature_type (creature_characteristics a)"
    "combat_styles (creature_characteristics a') = combat_styles (creature_characteristics a)"
    using assms by (simp_all add: a_def a'_def)
  obtain base_hp mult where base: "draw_base_hp g = Inr (base_hp, sdrop 2 g)"
    and mult: "dict_lookup damage_multipliers
       (rarity_for_score (fadd (float_of_int (complexity_score a))
          (fmul (apparent_power_level a) (float_of_int 2)))) = Inr mult"
    using synthesis_returns [of g a] by blast
  have mult': "dict_lookup damage_multipliers
       (rarity_for_score (fadd (float_of_int (complexity_score a'))
          (fmul (apparent_power_level a') (float_of_int 2)))) = Inr mult"
    using mult by (simp add: eqs)
  have sa: "style_attacks_of (creature_characteristics a') (detected_element a)
      = style_attacks_of (creature_characteristics a) (detected_element a)"
    by (rule style_attacks_of_cong [OF eqs(5)])
  have se: "secondary_attacks_of (creature_characteristics a') (detected_element a)
      = secondary_attacks_of (creature_characteristics a) (detected_element a)"
    by (rule secondary_attacks_of_cong [OF eqs(5)])
  show ?thesis
    unfolding analyze_image_and_generate_stats_def Let_def a_def [symmetric] a'_def [symmetric]
      generate_stats_from_analysis_closed [OF base mult]
      generate_stats_from_analysis_closed [OF base mult']
    by (simp add: eqs sa se)
qed

theorem descriptors_do_not_influence_card_witness:
  "descriptors (creature_characteristics (simulate_vision_analysis [] ''xyzzy qq''))
     \<noteq> descriptors (creature_characteristics (simulate_vision_analysis [] ''xyz qqqqq''))
   \<and> (\<exists>card g'.
      analyze_image_and_generate_stats [] ''xyzzy qq'' (sconst 0) = Inr (card, g')
      \<and> analyze_image_and_generate_stats [] ''xyz qqqqq'' (sconst 0) = Inr (card, g'))"
proof -
  have d: "descriptors (creature_characteristics (simulate_vision_analysis [] ''xyzzy qq''))
     \<noteq> descriptors (creature_characteristics (simulate_vision_analysis [] ''xyz qqqqq''))"
    unfolding descriptor_examples by simp
  from descriptors_do_not_influence_card [OF descriptor_examples(1-5), of "sconst 0"] d
  show ?thesis by blast
qed

text \<open>
  Claim C10. For every prompt whose archetype is \<^verbatim>\<open>demon\<close>, \<^verbatim>\<open>angel\<close> or
  \<^verbatim>\<open>undead\<close>, the flavor text is the result of \<^verbatim>\<open>random.choice\<close> on the template
  list of \<^verbatim>\<open>beast\<close>: the flavor table has the keys dragon, wolf, bird, beast and
  elemental only, and a missing key falls through to the list of \<^verbatim>\<open>beast\<close>.
\<close>

theorem unmapped_archetype_gets_beast_flavor:
  assumes "creature_type (creature_characteristics (simulate_vision_analysis image_url prompt))
             \<in> set [''demon'', ''angel'', ''undead'']"
  shows "\<exists>card g'.
      analyze_image_and_generate_stats image_url prompt g = Inr (card, g')
      \<and> random_choice
           [''A fierce predator that rules its territory with strength.'',
            ''Its roar can be heard for miles, warning others to stay away.'',
            ''Perfectly adapted to survive in the harshest conditions.''] (sdrop 7 g)
          = Inr (flavorText card, g')
      \<and> map_of flavor_templates
           (creature_type (creature_characteristics (simulate_vision_analysis image_url prompt)))
          = None
      \<and> map fst flavor_templates = [''dragon'', ''wolf'', ''bird'', ''beast'', ''elemental'']
      \<and> dict_lookup flavor_templates ''beast''
          = Inr [''A fierce predator that rules its territory with strength.'',
                 ''Its roar can be heard for miles, warning others to stay away.'',
                 ''Perfectly adapted to survive in the harshest conditions.'']"
proof -
  define a where "a = simulate_vision_analysis image_url prompt"
  obtain base_hp mult where base: "draw_base_hp g = Inr (base_hp, sdrop 2 g)"
    and mult: "dict_lookup damage_multipliers
       (rarity_for_score (fadd (float_of_int (complexity_score a))
          (fmul (apparent_power_level a) (float_of_int 2)))) = Inr mult"
    using synthesis_returns [of g a] by blast
  note card = generate_stats_from_analysis_closed [OF base mult]
  have ct: "creature_type (creature_characteristics a) \<in> set [''demon'', ''angel'', ''undead'']"
    using assms by (simp add: a_def)
  have none: "map_of flavor_templates (creature_type (creature_characteristics a)) = None"
    using ct by (auto simp: flavor_templates_def)
  have keys: "map fst flavor_templates = [''dragon'', ''wolf'', ''bird'', ''beast'', ''elemental'']"
    by (simp add: flavor_templates_def)
  have beast: "dict_lookup flavor_templates ''beast''
          = Inr [''A fierce predator that rules its territory with strength.'',
                 ''Its roar can be heard for miles, warning others to stay away.'',
                 ''Perfectly adapted to survive in the harshest conditions.'']"
    by (simp add: dict_lookup_def flavor_templates_def)
  have eight: "stl (sdrop 7 g) = sdrop 8 g" by (simp add: eval_nat_numeral)
  have choice: "random_choice
           [''A fierce predator that rules its territory with strength.'',
            ''Its roar can be heard for miles, warning others to stay away.'',
            ''Perfectly adapted to survive in the harshest conditions.''] (sdrop 7 g)
          = Inr ([''A fierce predator that rules its territory with strength.'',
            ''Its roar can be heard for miles, warning others to stay away.'',
            ''Perfectly adapted to survive in the harshest conditions.''] ! (g !! 7 mod 3),
              sdrop 8 g)"
    by (simp add: random_choice_def eight)
  show ?thesis
    unfolding analyze_image_and_generate_stats_def Let_def a_def [symmetric] card
      flavor_unmapped [OF ct] choice
    using none keys beast by simp
qed

theorem unmapped_archetype_gets_beast_flavor_witness:
  "creature_type (creature_characteristics (simulate_vision_analysis [] ''a winged demon''))
      \<in> set [''demon'', ''angel'', ''undead'']
   \<and> (\<exists>card g'.
      analyze_image_and_generate_stats [] ''a winged demon'' (sconst 0) = Inr (card, g')
      \<and> random_choice
           [''A fierce predator that rules its territory with strength.'',
            ''Its roar can be heard for miles, warning others to stay away.'',
            ''Perfectly adapted to survive in the harshest conditions.''] (sdrop 7 (sconst 0))
          = Inr (flavorText card, g'))"
proof -
  have h: "creature_type (creature_characteristics
      (simulate_vision_analysis [] ''a winged demon'')) \<in> set [''demon'', ''angel'', ''undead'']"
    unfolding demon_example by simp
  from unmapped_archetype_gets_beast_flavor [OF h, of "sconst 0"] h
  show ?thesis by blast
qed

text \<open>
  Claim C8. On every generated card the primary attack is a template of the table with its
  base damage scaled: \<^verbatim>\<open>max(15, int(base_damage * multiplier))\<close>, the multiplier being
  that of the card's rarity (Common 0.9, Uncommon 1.0, Rare 1.1, Epic 1.2, Legendary 1.3).
  The secondary attack is, when the coin of the sixth draw is below \<^verbatim>\<open>0.7\<close>, a template
  with damage \<^verbatim>\<open>max(10, int(base_damage * multiplier * 0.8))\<close>, and otherwise one of the
  three utility actions, with damage 0. Hence no attack has negative damage.
\<close>

theorem attack_damage_formulas:
  "\<exists>card g' mult a1 a2 t1 t2 u.
      analyze_image_and_generate_stats image_url prompt g = Inr (card, g')
      \<and> attacks card = [a1, a2]
      \<and> dict_lookup [(''Common'', float_lit 9 10), (''Uncommon'', float_lit 10 10),
                       (''Rare'', float_lit 11 10), (''Epic'', float_lit 12 10),
                       (''Legendary'', float_lit 13 10)] (rarity card) = Inr mult
      \<and> style_attacks_of
            (creature_characteristics (simulate_vision_analysis image_url prompt))
            (card_type card) = [t1]
      \<and> a1 = \<lparr> attack_name = fst t1,
                damage = max 15 (py_int (fmul (float_of_int (fst (snd t1))) mult)),
                description = snd (snd t1) \<rparr>
      \<and> secondary_attacks_of
            (creature_characteristics (simulate_vision_analysis image_url prompt))
            (card_type card) = [t2]
      \<and> u = snd (utility_attacks (hp card) ! (g !! 6 mod 3))
      \<and> a2 = (if fst (random_random (sdrop 5 g)) < float_lit 7 10
               then \<lparr> attack_name = fst t2,
                      damage = max 10 (py_int (fmul (fmul (float_of_int (fst (snd t2))) mult)
                                                    (float_lit 8 10))),
                      description = snd (snd t2) \<rparr>
               else \<lparr> attack_name = fst u, damage = 0, description = snd (snd u) \<rparr>)
      \<and> 0 \<le> damage a1 \<and> 0 \<le> damage a2"
proof -
  define a where "a = simulate_vision_analysis image_url prompt"
  define ch where "ch = creature_characteristics a"
  define el where "el = detected_element a"
  obtain base_hp mult where base: "draw_base_hp g = Inr (base_hp, sdrop 2 g)"
    and mult: "dict_lookup damage_multipliers
       (rarity_for_score (fadd (float_of_int (complexity_score a))
          (fmul (apparent_power_level a) (float_of_int 2)))) = Inr mult"
    using synthesis_returns [of g a] by blast
  note card = generate_stats_from_analysis_closed [OF base mult, folded ch_def el_def]
  have t1: "style_attacks_of ch el = [hd (style_attacks_of ch el)]"
    by (rule single_eq_hd [OF style_attacks_single])
  have t2: "secondary_attacks_of ch el = [hd (secondary_attacks_of ch el)]"
    by (rule single_eq_hd [OF secondary_attacks_single])
  have mult': "dict_lookup [(''Common'', float_lit 9 10), (''Uncommon'', float_lit 10 10),
                       (''Rare'', float_lit 11 10), (''Epic'', float_lit 12 10),
                       (''Legendary'', float_lit 13 10)]
       (rarity_for_score (fadd (float_of_int (complexity_score a))
          (fmul (apparent_power_level a) (float_of_int 2)))) = Inr mult"
    using mult by (simp add: damage_multipliers_def)
  show ?thesis
    unfolding analyze_image_and_generate_stats_def Let_def a_def [symmetric] card
    apply (rule exI, rule exI, rule exI [of _ mult], rule exI, rule exI,
        rule exI [of _ "hd (style_attacks_of ch el)"],
        rule exI [of _ "hd (secondary_attacks_of ch el)"], rule exI)
    apply (intro conjI)
             apply (rule refl)
            apply (simp only: card_metadata.simps)
           apply (simp only: card_metadata.simps, rule mult')
          apply (simp only: card_metadata.simps ch_def [symmetric], rule t1)
         apply (rule refl)
        apply (simp only: card_metadata.simps ch_def [symmetric], rule t2)
       apply (rule refl)
      apply (simp add: utility_damage_zero)
     apply (simp add: le_max_iff_disj)
    apply (simp add: le_max_iff_disj utility_damage_zero)
    done
qed

text \<open>
  Claim C7, as amended. Whenever the secondary attack takes the offensive branch (the coin
  of the sixth draw is below \<^verbatim>\<open>0.7\<close>) and the secondary style (the next detected style,
  or \<^verbatim>\<open>magic\<close> when one style was detected) has no template list for the card's
  element, the secondary template is drawn from \<^verbatim>\<open>style_attacks\<close>, the list already
  selected for the primary attack: the list of the primary style for that element, or else
  the element's \<^verbatim>\<open>physical\<close> list, or else the generic \<^verbatim>\<open>Strike\<close>. Its damage is
  \<^verbatim>\<open>max(10, int(base_damage * multiplier * 0.8))\<close>. The lists hold one template each, so
  the secondary attack then carries the name of the primary attack.
\<close>

theorem secondary_fallback_reuses_primary_list:
  assumes "fst (random_random (sdrop 5 g)) < float_lit 7 10"
    and "map_of (element_attacks_of (detected_element (simulate_vision_analysis image_url prompt)))
           (secondary_style_of
              (creature_characteristics (simulate_vision_analysis image_url prompt))) = None"
  shows "\<exists>card g' mult t.
      analyze_image_and_generate_stats image_url prompt g = Inr (card, g')
      \<and> dict_lookup damage_multipliers (rarity card) = Inr mult
      \<and> secondary_attacks_of
            (creature_characteristics (simulate_vision_analysis image_url prompt))
            (card_type card)
          = style_attacks_of
              (creature_characteristics (simulate_vision_analysis image_url prompt))
              (card_type card)
      \<and> random_choice
            (style_attacks_of
               (creature_characteristics (simulate_vision_analysis image_url prompt))
               (card_type card)) (sdrop 6 g) = Inr (t, sdrop 7 g)
      \<and> attacks card ! 1 =
            \<lparr> attack_name = fst t,
              damage = max 10 (py_int (fmul (fmul (float_of_int (fst (snd t))) mult)
                                            (float_lit 8 10))),
              description = snd (snd t) \<rparr>
      \<and> attack_name (attacks card ! 0) = fst t"
proof -
  define a where "a = simulate_vision_analysis image_url prompt"
  define ch where "ch = creature_characteristics a"
  define el where "el = detected_element a"
  obtain base_hp mult where base: "draw_base_hp g = Inr (base_hp, sdrop 2 g)"
    and mult: "dict_lookup damage_multipliers
       (rarity_for_score (fadd (float_of_int (complexity_score a))
          (fmul (apparent_power_level a) (float_of_int 2)))) = Inr mult"
    using synthesis_returns [of g a] by blast
  note card = generate_stats_from_analysis_closed [OF base mult, folded ch_def el_def]
  have absent: "map_of (element_attacks_of el) (secondary_style_of ch) = None"
    using assms(2) by (simp add: a_def ch_def el_def)
  have same: "secondary_attacks_of ch el = style_attacks_of ch el"
    unfolding secondary_attacks_of_def by (rule dict_get_absent [OF absent])
  have seven: "stl (sdrop 6 g) = sdrop 7 g" by (simp add: eval_nat_numeral)
  have choice: "random_choice (style_attacks_of ch el) (sdrop 6 g)
      = Inr (hd (style_attacks_of ch el), sdrop 7 g)"
    by (simp add: random_choice_single [OF style_attacks_single] seven)
  show ?thesis
    unfolding analyze_image_and_generate_stats_def Let_def a_def [symmetric] card
    apply (rule exI, rule exI, rule exI [of _ mult],
        rule exI [of _ "hd (style_attacks_of ch el)"])
    apply (intro conjI)
         apply (rule refl)
        apply (simp only: card_metadata.simps, rule mult)
       apply (simp only: card_metadata.simps ch_def [symmetric], rule same)
      apply (simp only: card_metadata.simps ch_def [symmetric], rule choice)
     apply (simp add: assms(1) same)
    apply simp
    done
qed

theorem secondary_fallback_reuses_primary_list_witness:
  "fst (random_random (sdrop 5 (sconst 0))) < float_lit 7 10
   \<and> map_of (element_attacks_of (detected_element
               (simulate_vision_analysis [] ''burning rock claws'')))
        (secondary_style_of (creature_characteristics
               (simulate_vision_analysis [] ''burning rock claws''))) = None
   \<and> (\<exists>card g' mult t.
      analyze_image_and_generate_stats [] ''burning rock claws'' (sconst 0) = Inr (card, g')
      \<and> dict_lookup damage_multipliers (rarity card) = Inr mult
      \<and> random_choice
            (style_attacks_of
               (creature_characteristics (simulate_vision_analysis [] ''burning rock claws''))
               (card_type card)) (sdrop 6 (sconst 0)) = Inr (t, sdrop 7 (sconst 0))
      \<and> attacks card ! 1 =
            \<lparr> attack_name = fst t,
              damage = max 10 (py_int (fmul (fmul (float_of_int (fst (snd t))) mult)
                                            (float_lit 8 10))),
              description = snd (snd t) \<rparr>)"
proof -
  have h2: "map_of (element_attacks_of (detected_element
               (simulate_vision_analysis [] ''burning rock claws'')))
        (secondary_style_of (creature_characteristics
               (simulate_vision_analysis [] ''burning rock claws''))) = None"
    unfolding burning_rock_claws(1,3) by (rule burning_rock_claws(4))
  from secondary_fallback_reuses_primary_list [OF coin_zero h2] coin_zero h2
  show ?thesis by blast
qed

text \<open>
  Claim C7 as first stated draws the fallback from the element's \<^verbatim>\<open>physical\<close> list.
  For the prompt \<^verbatim>\<open>burning rock claws\<close> (element Earth, styles slashing and fire) with
  every draw 0, the secondary style \<^verbatim>\<open>fire\<close> has no list for Earth, the
  \<^verbatim>\<open>physical\<close> list of Earth holds \<^verbatim>\<open>Boulder Throw\<close>, and the secondary attack is
  \<^verbatim>\<open>Stone Claw\<close>, the template of the primary style.
\<close>

theorem secondary_fallback_not_physical:
  "fst (random_random (sdrop 5 (sconst 0))) < float_lit 7 10
   \<and> secondary_style_of (creature_characteristics
        (simulate_vision_analysis [] ''burning rock claws'')) = ''fire''
   \<and> detected_element (simulate_vision_analysis [] ''burning rock claws'') = ''Earth''
   \<and> map_of (element_attacks_of ''Earth'') ''fire'' = None
   \<and> dict_get (element_attacks_of ''Earth'') ''physical'' [(''Strike'', 30, ''Basic attack'')]
       = [(''Boulder Throw'', 45, ''Hurls massive rocks'')]
   \<and> map_sum id (attacks \<circ> fst)
        (analyze_image_and_generate_stats [] ''burning rock claws'' (sconst 0))
       = Inr [\<lparr> attack_name = ''Stone Claw'', damage = 38,
                 description = ''Cuts with razor-sharp stone'' \<rparr>,
              \<lparr> attack_name = ''Stone Claw'', damage = 30,
                 description = ''Cuts with razor-sharp stone'' \<rparr>]"
proof -
  note card = generate_stats_from_analysis_closed [OF draw_base_hp_zero burning_rock_claws(8)]
  have "map_sum id (attacks \<circ> fst)
        (analyze_image_and_generate_stats [] ''burning rock claws'' (sconst 0))
       = Inr [\<lparr> attack_name = ''Stone Claw'', damage = 38,
                 description = ''Cuts with razor-sharp stone'' \<rparr>,
              \<lparr> attack_name = ''Stone Claw'', damage = 30,
                 description = ''Cuts with razor-sharp stone'' \<rparr>]"
    unfolding analyze_image_and_generate_stats_def Let_def card
    by (simp add: burning_rock_claws random_random_def float_lit_07)
  then show ?thesis
    using coin_zero burning_rock_claws(1,3,4,5) by blast
qed

end
